theory Spec2Isabelle
  imports Complex_Main
begin

section \<open>Assignment optimizers (src/algorithms/optimizers.ts)\<close>

text \<open>
  JavaScript numbers are modelled as exact reals; array indices and counters as naturals.
  An \<open>AssignmentMatrix\<close> is well formed when \<open>costMatrix\<close> has one row per order and
  every row has one entry per rider, which is how the engine builds it. On a matrix that
  is not well formed, or has no rider, the auction and the greedy solver read
  \<open>undefined\<close> entries; the general statements below assume a well-formed matrix with
  at least one rider.
\<close>

text \<open>
  Where the source starts a running minimum or maximum at \<open>Infinity\<close> or \<open>-Infinity\<close>,
  the value is an \<open>xnum\<close>. Opposite infinities are never added in the modelled code
  (prices and bids only grow towards \<open>+Infinity\<close>, values only fall towards
  \<open>-Infinity\<close>), so \<open>xadd\<close> fixes that case arbitrarily.
\<close>

datatype xnum = NegInf | Fin real | PosInf

fun xless :: "xnum \<Rightarrow> xnum \<Rightarrow> bool" where
  "xless NegInf NegInf = False"
| "xless NegInf (Fin b) = True"
| "xless NegInf PosInf = True"
| "xless (Fin a) NegInf = False"
| "xless (Fin a) (Fin b) = (a < b)"
| "xless (Fin a) PosInf = True"
| "xless PosInf y = False"

fun xneg :: "xnum \<Rightarrow> xnum" where
  "xneg NegInf = PosInf"
| "xneg (Fin a) = Fin (- a)"
| "xneg PosInf = NegInf"

fun xadd :: "xnum \<Rightarrow> xnum \<Rightarrow> xnum" where
  "xadd (Fin a) (Fin b) = Fin (a + b)"
| "xadd PosInf y = PosInf"
| "xadd x PosInf = PosInf"
| "xadd NegInf y = NegInf"
| "xadd x NegInf = NegInf"

definition xsub :: "xnum \<Rightarrow> xnum \<Rightarrow> xnum" where
  "xsub x y = xadd x (xneg y)"

definition xmax :: "xnum \<Rightarrow> xnum \<Rightarrow> xnum" where
  "xmax x y = (if xless x y then y else x)"

text \<open>A JavaScript \<open>Map\<close> is an association list in insertion order with distinct keys:
  \<open>get\<close> is \<open>map_of\<close>, \<open>set\<close> overwrites in place or appends.\<close>

fun map_set :: "('k \<times> 'v) list \<Rightarrow> 'k \<Rightarrow> 'v \<Rightarrow> ('k \<times> 'v) list" where
  "map_set [] k v = [(k, v)]"
| "map_set ((k', v') # rest) k v =
     (if k' = k then (k, v) # rest else (k', v') # map_set rest k v)"

record AssignmentMatrix =
  orders :: "string list"
  riders :: "string list"
  costMatrix :: "real list list"

datatype algorithm = hungarian | auction | greedy

text \<open>
  \<open>pairs\<close> lists the (orderIdx, riderIdx) at which the solver executes
  \<open>assignments.set(orders[orderIdx], riders[riderIdx])\<close>, in execution order;
  \<open>assignments\<close> is the resulting Map from order id to rider id.
\<close>

record OptimizationResult =
  pairs :: "(nat \<times> nat) list"
  assignments :: "(string \<times> string) list"
  totalCost :: xnum
  algorithm :: algorithm

definition wf_matrix :: "AssignmentMatrix \<Rightarrow> bool" where
  "wf_matrix mx \<longleftrightarrow>
     length (costMatrix mx) = length (orders mx) \<and>
     list_all (\<lambda>row. length row = length (riders mx)) (costMatrix mx)"

definition sentinel :: real where
  "sentinel = 10 ^ 10"

definition set_pairs :: "AssignmentMatrix \<Rightarrow> (nat \<times> nat) list \<Rightarrow> (string \<times> string) list" where
  "set_pairs mx ps = fold (\<lambda>(i, j) a. map_set a (orders mx ! i) (riders mx ! j)) ps []"

definition sum_pairs :: "AssignmentMatrix \<Rightarrow> (nat \<times> nat) list \<Rightarrow> real" where
  "sum_pairs mx ps = fold (\<lambda>(i, j) t. t + costMatrix mx ! i ! j) ps 0"

subsection \<open>HungarianOptimizer\<close>

definition padCostMatrix :: "real list list \<Rightarrow> nat \<Rightarrow> nat \<Rightarrow> nat \<Rightarrow> real list list" where
  "padCostMatrix costs n m maxDim =
     map (\<lambda>i. map (\<lambda>j. if i < n \<and> j < m then costs ! i ! j else 10 ^ 10) [0..<maxDim])
       [0..<maxDim]"

text \<open>The arrays \<open>u\<close>, \<open>v\<close>, \<open>p\<close>, \<open>way\<close> of \<open>hungarianAlgorithm\<close>, each of length n + 1.\<close>

record hstate =
  hu :: "real list"
  hv :: "real list"
  hp :: "nat list"
  hway :: "nat list"

text \<open>The locals of one row iteration: \<open>minv\<close>, \<open>used\<close> and \<open>j0\<close>.\<close>

record rstate = hstate +
  minv :: "real list"
  used :: "bool list"
  j0 :: nat

text \<open>Body of the first inner \<open>for\<close> loop, for one column \<open>j\<close>; the accumulator is
  (minv, way, delta, j1).\<close>

definition scan_col ::
  "real list list \<Rightarrow> real list \<Rightarrow> real list \<Rightarrow> bool list \<Rightarrow> nat \<Rightarrow> nat \<Rightarrow> nat \<Rightarrow>
   real list \<times> nat list \<times> real \<times> nat \<Rightarrow> real list \<times> nat list \<times> real \<times> nat" where
  "scan_col costs u v usd i0 jz j acc =
     (case acc of (mv, wy, delta, j1) \<Rightarrow>
        if \<not> usd ! j then
          (let cur = costs ! (i0 - 1) ! (j - 1) - u ! i0 - v ! j;
               mv' = (if cur < mv ! j then mv[j := cur] else mv);
               wy' = (if cur < mv ! j then wy[j := jz] else wy)
           in if mv' ! j < delta then (mv', wy', mv' ! j, j) else (mv', wy', delta, j1))
        else (mv, wy, delta, j1))"

text \<open>Body of the second inner \<open>for\<close> loop, for one column \<open>j\<close>; the accumulator is
  (u, v, minv).\<close>

definition shift_col ::
  "nat list \<Rightarrow> bool list \<Rightarrow> real \<Rightarrow> nat \<Rightarrow>
   real list \<times> real list \<times> real list \<Rightarrow> real list \<times> real list \<times> real list" where
  "shift_col p usd delta j acc =
     (case acc of (u, v, mv) \<Rightarrow>
        if usd ! j then (u[p ! j := u ! (p ! j) + delta], v[j := v ! j - delta], mv)
        else (u, v, mv[j := mv ! j - delta]))"

text \<open>One pass through the body of the first \<open>do ... while\<close> loop.\<close>

definition search_step :: "real list list \<Rightarrow> nat \<Rightarrow> rstate \<Rightarrow> rstate" where
  "search_step costs n s =
     (let usd = (used s)[j0 s := True];
          i0 = hp s ! j0 s;
          (mv, wy, delta, j1) =
             fold (scan_col costs (hu s) (hv s) usd i0 (j0 s)) [1..<n + 1]
               (minv s, hway s, 10 ^ 10, 0);
          (u, v, mv') = fold (shift_col (hp s) usd delta) [0..<n + 1] (hu s, hv s, mv)
      in s\<lparr>hu := u, hv := v, hway := wy, minv := mv', used := usd, j0 := j1\<rparr>)"

text \<open>The first \<open>do ... while (p[j0] !== 0)\<close> loop. It has no iteration bound in the
  source, so not returning is the value \<open>None\<close>.\<close>

partial_function (option) search :: "real list list \<Rightarrow> nat \<Rightarrow> rstate \<Rightarrow> rstate option" where
  "search costs n s =
     (let s' = search_step costs n s
      in if hp s' ! j0 s' \<noteq> 0 then search costs n s' else Some s')"

text \<open>The second \<open>do ... while (j0)\<close> loop, which rewrites \<open>p\<close> along \<open>way\<close>.\<close>

partial_function (option) augment :: "nat list \<Rightarrow> nat list \<Rightarrow> nat \<Rightarrow> nat list option" where
  "augment wy p jz =
     (let j1 = wy ! jz; p' = p[jz := p ! j1]
      in if j1 \<noteq> 0 then augment wy p' j1 else Some p')"

declare search.simps [code]
declare augment.simps [code]

text \<open>Body of the outer \<open>for (i = 1; i <= n; i++)\<close> loop.\<close>

definition row_iter :: "real list list \<Rightarrow> nat \<Rightarrow> nat \<Rightarrow> hstate \<Rightarrow> hstate option" where
  "row_iter costs n i h =
     (case search costs n
             (hstate.extend (h\<lparr>hp := (hp h)[0 := i]\<rparr>)
                (rstate.fields (replicate (n + 1) (10 ^ 10)) (replicate (n + 1) False) 0))
      of None \<Rightarrow> None
       | Some s \<Rightarrow>
          (case augment (hway s) (hp s) (j0 s) of
             None \<Rightarrow> None
           | Some p' \<Rightarrow> Some \<lparr>hu = hu s, hv = hv s, hp = p', hway = hway s\<rparr>))"

fun rows_loop :: "real list list \<Rightarrow> nat \<Rightarrow> nat list \<Rightarrow> hstate \<Rightarrow> hstate option" where
  "rows_loop costs n [] h = Some h"
| "rows_loop costs n (i # is) h =
     (case row_iter costs n i h of None \<Rightarrow> None | Some h' \<Rightarrow> rows_loop costs n is h')"

text \<open>The final loop \<open>result[p[j] - 1] = j - 1\<close> over a fresh \<open>Array(n)\<close>: an entry never
  written stays a hole (\<open>None\<close>), and a write at index -1 does not touch the entries.\<close>

definition write_result :: "nat list \<Rightarrow> nat \<Rightarrow> nat option list \<Rightarrow> nat option list" where
  "write_result p j res = (if p ! j = 0 then res else res[p ! j - 1 := Some (j - 1)])"

definition hungarianAlgorithm :: "real list list \<Rightarrow> nat option list option" where
  "hungarianAlgorithm costs =
     (let n = length costs
      in case rows_loop costs n [1..<n + 1]
                \<lparr>hu = replicate (n + 1) 0, hv = replicate (n + 1) 0,
                 hp = replicate (n + 1) 0, hway = replicate (n + 1) 0\<rparr>
         of None \<Rightarrow> None
          | Some h \<Rightarrow> Some (fold (write_result (hp h)) [1..<n + 1] (replicate n None)))"

text \<open>The emission loop of \<open>HungarianOptimizer.optimize\<close>: a hole compares false with
  \<open>riderIdx < m\<close>.\<close>

definition hungarian_pairs :: "nat \<Rightarrow> nat \<Rightarrow> nat option list \<Rightarrow> (nat \<times> nat) list" where
  "hungarian_pairs n m assignment =
     concat (map (\<lambda>orderIdx. case assignment ! orderIdx of
                                None \<Rightarrow> []
                              | Some riderIdx \<Rightarrow> if riderIdx < m then [(orderIdx, riderIdx)] else [])
              [0..<n])"

definition hungarian_optimize :: "AssignmentMatrix \<Rightarrow> OptimizationResult option" where
  "hungarian_optimize mx =
     (let n = length (orders mx); m = length (riders mx); maxDim = max n m;
          paddedCosts = padCostMatrix (costMatrix mx) n m maxDim
      in case hungarianAlgorithm paddedCosts of
           None \<Rightarrow> None
         | Some assignment \<Rightarrow>
             (let ps = hungarian_pairs n m assignment
              in Some \<lparr>pairs = ps, assignments = set_pairs mx ps,
                       totalCost = Fin (sum_pairs mx ps), algorithm = hungarian\<rparr>))"

subsection \<open>AuctionOptimizer\<close>

text \<open>
  \<open>prices\<close> is the array of rider prices, \<open>assigned\<close> the array \<open>assignments\<close>
  (\<open>None\<close> for -1), \<open>unassignedOrders\<close> the Set in insertion order.
\<close>

record astate =
  prices :: "xnum list"
  assigned :: "nat option list"
  unassignedOrders :: "nat list"

definition bid_value :: "real list \<Rightarrow> xnum list \<Rightarrow> nat \<Rightarrow> xnum" where
  "bid_value row prs riderIdx = xsub (Fin (- (row ! riderIdx))) (prs ! riderIdx)"

definition best_scan :: "real list \<Rightarrow> xnum list \<Rightarrow> nat \<Rightarrow> xnum \<times> nat \<Rightarrow> xnum \<times> nat" where
  "best_scan row prs riderIdx acc =
     (case acc of (bestValue, bestRider) \<Rightarrow>
        if xless bestValue (bid_value row prs riderIdx)
        then (bid_value row prs riderIdx, riderIdx) else (bestValue, bestRider))"

definition second_scan :: "real list \<Rightarrow> xnum list \<Rightarrow> nat \<Rightarrow> nat \<Rightarrow> xnum \<Rightarrow> xnum" where
  "second_scan row prs bestRider riderIdx secondBestValue =
     (if riderIdx \<noteq> bestRider then xmax secondBestValue (bid_value row prs riderIdx)
      else secondBestValue)"

text \<open>\<open>bids\<close> is a Map from rider index to (orderIdx, bid).\<close>

text \<open>The bidding of one unassigned order.\<close>

definition place_bid ::
  "AssignmentMatrix \<Rightarrow> xnum list \<Rightarrow> nat \<Rightarrow> (nat \<times> nat \<times> xnum) list \<Rightarrow> (nat \<times> nat \<times> xnum) list" where
  "place_bid mx prs orderIdx bids =
     (let m = length (riders mx); row = costMatrix mx ! orderIdx;
          bestRider = snd (fold (best_scan row prs) [0..<m] (NegInf, 0));
          secondBestValue = fold (second_scan row prs bestRider) [0..<m] NegInf;
          bidAmount = xadd (xsub (Fin (- (row ! bestRider))) secondBestValue) (Fin (1 / 100))
      in case map_of bids bestRider of
           None \<Rightarrow> map_set bids bestRider (orderIdx, bidAmount)
         | Some (o', currentBid) \<Rightarrow>
             if xless currentBid bidAmount then map_set bids bestRider (orderIdx, bidAmount)
             else bids)"

text \<open>The award of one entry of \<open>bids\<close>: the first order holding the rider goes back to
  the unassigned Set, then the bidder takes the rider and the price rises.\<close>

definition award :: "nat \<Rightarrow> nat \<times> nat \<times> xnum \<Rightarrow> astate \<Rightarrow> astate" where
  "award n entry s =
     (case entry of (riderIdx, orderIdx, bid) \<Rightarrow>
        \<lparr>prices = (prices s)[riderIdx := xadd (prices s ! riderIdx) bid],
         assigned = (assigned s)[orderIdx := Some riderIdx],
         unassignedOrders =
           (case find (\<lambda>i. assigned s ! i = Some riderIdx) [0..<n] of
              None \<Rightarrow> unassignedOrders s
            | Some i \<Rightarrow> if i \<in> set (unassignedOrders s) then unassignedOrders s
                        else unassignedOrders s @ [i])\<rparr>)"

definition auction_round :: "AssignmentMatrix \<Rightarrow> astate \<Rightarrow> astate" where
  "auction_round mx s =
     (let bids = fold (place_bid mx (prices s)) (unassignedOrders s) []
      in fold (award (length (orders mx))) bids (s\<lparr>unassignedOrders := []\<rparr>))"

text \<open>The \<open>while (unassignedOrders.size > 0 && iteration < maxIterations)\<close> loop; the
  first argument is the number of iterations left.\<close>

fun auction_loop :: "nat \<Rightarrow> AssignmentMatrix \<Rightarrow> astate \<Rightarrow> astate" where
  "auction_loop 0 mx s = s"
| "auction_loop (Suc k) mx s =
     (if unassignedOrders s = [] then s else auction_loop k mx (auction_round mx s))"

definition auction_pairs :: "nat \<Rightarrow> nat \<Rightarrow> nat option list \<Rightarrow> (nat \<times> nat) list" where
  "auction_pairs n m asg =
     concat (map (\<lambda>orderIdx. case asg ! orderIdx of
                                None \<Rightarrow> []
                              | Some riderIdx \<Rightarrow> if riderIdx < m then [(orderIdx, riderIdx)] else [])
              [0..<n])"

definition auction_optimize :: "AssignmentMatrix \<Rightarrow> OptimizationResult" where
  "auction_optimize mx =
     (let n = length (orders mx); m = length (riders mx);
          s = auction_loop 1000 mx
                \<lparr>prices = replicate m (Fin 0), assigned = replicate n None,
                 unassignedOrders = [0..<n]\<rparr>;
          ps = auction_pairs n m (assigned s)
      in \<lparr>pairs = ps, assignments = set_pairs mx ps,
          totalCost = Fin (sum_pairs mx ps), algorithm = auction\<rparr>)"

text \<open>The state in which the loop of \<open>AuctionOptimizer.optimize\<close> starts, and the
  invariant of the Map \<open>bids\<close> while the orders of the set \<open>os\<close> have bid at the prices
  \<open>prs\<close>: the keys are distinct, and every entry holds an order of \<open>os\<close> under the rider
  that the order's bidding scan has chosen.\<close>

definition auction_start :: "AssignmentMatrix \<Rightarrow> astate" where
  "auction_start mx =
     \<lparr>prices = replicate (length (riders mx)) (Fin 0),
      assigned = replicate (length (orders mx)) None,
      unassignedOrders = [0..<length (orders mx)]\<rparr>"

definition bids_ok :: "AssignmentMatrix \<Rightarrow> xnum list \<Rightarrow> nat set \<Rightarrow> (nat \<times> nat \<times> xnum) list \<Rightarrow> bool"
  where
  "bids_ok mx prs os bids \<longleftrightarrow>
     distinct (map fst bids)
     \<and> (\<forall>(r, x, b) \<in> set bids. x \<in> os
          \<and> r = snd (fold (best_scan (costMatrix mx ! x) prs) [0..<length (riders mx)]
                      (NegInf, 0)))"

subsection \<open>GreedyOptimizer\<close>

text \<open>The inner loop over riders: \<open>bestCost\<close> starts at \<open>Infinity\<close> and \<open>bestRider\<close>
  at 0.\<close>

definition greedy_scan :: "real list \<Rightarrow> nat \<Rightarrow> xnum \<times> nat \<Rightarrow> xnum \<times> nat" where
  "greedy_scan row riderIdx acc =
     (case acc of (bestCost, bestRider) \<Rightarrow>
        if xless (Fin (row ! riderIdx)) bestCost then (Fin (row ! riderIdx), riderIdx)
        else (bestCost, bestRider))"

definition greedy_best :: "real list \<Rightarrow> nat \<Rightarrow> xnum \<times> nat" where
  "greedy_best row m = fold (greedy_scan row) [0..<m] (PosInf, 0)"

definition greedy_pairs :: "AssignmentMatrix \<Rightarrow> (nat \<times> nat) list" where
  "greedy_pairs mx =
     map (\<lambda>orderIdx. (orderIdx, snd (greedy_best (costMatrix mx ! orderIdx) (length (riders mx)))))
       [0..<length (orders mx)]"

definition greedy_optimize :: "AssignmentMatrix \<Rightarrow> OptimizationResult" where
  "greedy_optimize mx =
     \<lparr>pairs = greedy_pairs mx, assignments = set_pairs mx (greedy_pairs mx),
      totalCost = fold (\<lambda>orderIdx t.
                     xadd t (fst (greedy_best (costMatrix mx ! orderIdx) (length (riders mx)))))
                   [0..<length (orders mx)] (Fin 0),
      algorithm = greedy\<rparr>"

subsection \<open>AdaptiveOptimizer\<close>

text \<open>On a well-formed matrix the Hungarian solver raises nothing, so the \<open>catch\<close>
  branches are not taken: it returns, or it does not return (\<open>None\<close>).\<close>

definition adaptive_optimize :: "AssignmentMatrix \<Rightarrow> real \<Rightarrow> OptimizationResult option" where
  "adaptive_optimize mx hungarianThreshold =
     (let problemSize = length (orders mx) * length (riders mx)
      in if real problemSize \<le> hungarianThreshold then hungarian_optimize mx
         else if problemSize \<le> 50000 then Some (auction_optimize mx)
         else Some (greedy_optimize mx))"

section \<open>Data model (src/types/index.ts)\<close>

text \<open>
  Interfaces are records and string-literal unions are datatypes. A \<open>Date\<close> is its epoch
  time in milliseconds. Where two interfaces of the source use one field name
  (\<open>location\<close>, \<open>status\<close>, \<open>weightKg\<close>, \<open>orderId\<close>, ...), the later record
  prefixes it. Fields that no modelled function reads (addresses, store and customer
  ids, optional windows) are left out.
\<close>

record Location =
  lat :: real
  lng :: real

record OrderPickup =
  pickupLocation :: Location
  estimatedPickupWaitMinutes :: real

record OrderDelivery =
  deliveryLocation :: Location

datatype VehicleRequirement = req_any | req_bike | req_car | req_van | req_refrigerated

record OrderPayload =
  weightKg :: real
  volumeLiters :: real
  itemCount :: real
  requiresColdChain :: bool
  fragile :: bool
  vehicleRequirement :: VehicleRequirement

datatype OrderPriority = normal | high | critical

datatype OrderStatus = pending_assignment | assigned | picked_up | delivered | cancelled

record Order =
  orderId :: string
  status :: OrderStatus
  slaDeadline :: int
  pickup :: OrderPickup
  delivery :: OrderDelivery
  payload :: OrderPayload
  priority :: OrderPriority
  assignmentAttempts :: nat
  assignedRiderId :: "string option"

datatype RiderStatus = active | on_delivery | on_break | offline

datatype VehicleType = bike | car | van

datatype VehicleCapability = standard | cap_fragile | cold_chain

record Vehicle =
  vehicleType :: VehicleType
  maxWeightKg :: real
  maxVolumeLiters :: real
  maxItems :: real
  capabilities :: "VehicleCapability list"

record RiderShift =
  shiftEndTime :: int
  continuousDrivingMinutes :: real
  totalShiftDrivingMinutes :: real

record RiderLoad =
  loadWeightKg :: real
  loadVolumeLiters :: real
  loadItemCount :: real

record RiderPerformance =
  zoneFamiliarityScores :: "string \<rightharpoonup> real"
  avgDeliverySuccessRate :: real
  avgSpeedMultiplier :: real

datatype StopType = stop_pickup | stop_delivery

record RouteStop =
  stopType :: StopType
  stopOrderId :: string
  stopLocation :: Location
  sequenceIndex :: nat

record Rider =
  riderId :: string
  riderStatus :: RiderStatus
  riderLocation :: Location
  vehicle :: Vehicle
  shift :: RiderShift
  currentAssignments :: "string list"
  currentRoute :: "RouteStop list"
  load :: RiderLoad
  performance :: RiderPerformance

section \<open>Geo primitives (src/utils/geospatial.ts)\<close>

definition atan2 :: "real \<Rightarrow> real \<Rightarrow> real" where
  "atan2 y x =
     (if 0 < x then arctan (y / x)
      else if x < 0 \<and> 0 \<le> y then arctan (y / x) + pi
      else if x < 0 then arctan (y / x) - pi
      else if 0 < y then pi / 2
      else if y < 0 then - pi / 2
      else 0)"

definition haversineDistance :: "Location \<Rightarrow> Location \<Rightarrow> real" where
  "haversineDistance loc1 loc2 =
     (let R = 6371;
          lat1 = lat loc1 * pi / 180;
          lat2 = lat loc2 * pi / 180;
          deltaLat = (lat loc2 - lat loc1) * pi / 180;
          deltaLng = (lng loc2 - lng loc1) * pi / 180;
          a = sin (deltaLat / 2) * sin (deltaLat / 2)
              + cos lat1 * cos lat2 * sin (deltaLng / 2) * sin (deltaLng / 2);
          c = 2 * atan2 (sqrt a) (sqrt (1 - a))
      in R * c)"

text \<open>\<open>Math.round\<close> rounds half up, as \<open>round\<close> does.\<close>

definition estimateTravelTime :: "Location \<Rightarrow> Location \<Rightarrow> real \<Rightarrow> real \<Rightarrow> real" where
  "estimateTravelTime origin destination averageSpeedKmh trafficFactor =
     (let distanceKm = haversineDistance origin destination;
          baseTimeMinutes = (distanceKm / averageSpeedKmh) * 60;
          withTraffic = baseTimeMinutes * trafficFactor
      in real_of_int (round withTraffic))"

definition findRidersWithinRadius ::
  "Location \<Rightarrow> (string \<times> Location) list \<Rightarrow> real \<Rightarrow> string list" where
  "findRidersWithinRadius targetLocation riderLocations radiusKm =
     map fst (filter (\<lambda>(rid, loc). haversineDistance targetLocation loc \<le> radiusKm)
                riderLocations)"

fun route_legs :: "Location list \<Rightarrow> real" where
  "route_legs (a # b # rest) = haversineDistance a b + route_legs (b # rest)"
| "route_legs locs = 0"

definition calculateRouteTotalDistance :: "Location list \<Rightarrow> real" where
  "calculateRouteTotalDistance locations =
     (if length locations < 2 then 0 else route_legs locations)"

section \<open>Candidate generator (src/core/candidate-generation.ts)\<close>

record CandidateGenerationConfig =
  initialRadiusKm :: real
  expandedRadiusKm :: real
  maxRadiusKm :: real
  radiusExpansionMinutesThreshold :: real

record FatigueConfig =
  maxContinuousDrivingMinutes :: real
  mandatoryBreakMinutes :: real
  maxShiftDrivingMinutes :: real

record CandidateGenerationResult =
  cgOrderId :: string
  candidateRiderIds :: "string list"
  failureReason :: "string option"

record CheckResults =
  passed :: bool
  failedConstraints :: "string list"

text \<open>\<open>new Date(x)\<close> truncates a fractional time value towards zero.\<close>

definition new_Date :: "real \<Rightarrow> int" where
  "new_Date x = (if 0 \<le> x then \<lfloor>x\<rfloor> else \<lceil>x\<rceil>)"

definition updateRiderLocations :: "(string \<times> Rider) list \<Rightarrow> (string \<times> Location) list" where
  "updateRiderLocations rs = map (\<lambda>(rid, rider). (rid, riderLocation rider)) rs"

definition geographicFilter ::
  "CandidateGenerationConfig \<Rightarrow> (string \<times> Location) list \<Rightarrow> Order \<Rightarrow> int \<Rightarrow> string list" where
  "geographicFilter config riderLocations order now =
     (let slaMinutesRemaining = real_of_int (slaDeadline order - now) / 60000;
          loc = pickupLocation (pickup order)
      in if slaMinutesRemaining < radiusExpansionMinutesThreshold config
         then findRidersWithinRadius loc riderLocations (maxRadiusKm config)
         else
           (let r1 = initialRadiusKm config;
                c1 = findRidersWithinRadius loc riderLocations r1;
                r2 = (if c1 = [] \<and> r1 < expandedRadiusKm config
                      then expandedRadiusKm config else r1);
                c2 = (if c1 = [] \<and> r1 < expandedRadiusKm config
                      then findRidersWithinRadius loc riderLocations r2 else c1)
            in if c2 = [] \<and> r2 < maxRadiusKm config
               then findRidersWithinRadius loc riderLocations (maxRadiusKm config)
               else c2))"

definition capacityCheck :: "Order \<Rightarrow> Rider \<Rightarrow> bool" where
  "capacityCheck order rider =
     (let remainingWeight = maxWeightKg (vehicle rider) - loadWeightKg (load rider);
          remainingVolume = maxVolumeLiters (vehicle rider) - loadVolumeLiters (load rider);
          remainingItems = maxItems (vehicle rider) - loadItemCount (load rider)
      in remainingWeight \<ge> weightKg (payload order)
         \<and> remainingVolume \<ge> volumeLiters (payload order)
         \<and> remainingItems \<ge> itemCount (payload order))"

definition vehicle_matches :: "VehicleType \<Rightarrow> VehicleRequirement \<Rightarrow> bool" where
  "vehicle_matches t requirement =
     ((t = bike \<and> requirement = req_bike) \<or> (t = car \<and> requirement = req_car)
      \<or> (t = van \<and> requirement = req_van))"

text \<open>The early returns of the source are the first three branches; the fragile and
  cold-chain tests come after them.\<close>

definition vehicleCompatibilityCheck :: "Order \<Rightarrow> Rider \<Rightarrow> bool" where
  "vehicleCompatibilityCheck order rider =
     (let requirement = vehicleRequirement (payload order)
      in if requirement = req_any then True
         else if requirement = req_bike \<or> requirement = req_car \<or> requirement = req_van
           then vehicle_matches (vehicleType (vehicle rider)) requirement
         else if requirement = req_refrigerated
           then cold_chain \<in> set (capabilities (vehicle rider))
         else if fragile (payload order) \<and> cap_fragile \<notin> set (capabilities (vehicle rider))
           then False
         else if requiresColdChain (payload order)
                 \<and> cold_chain \<notin> set (capabilities (vehicle rider))
           then False
         else True)"

definition shiftTimeCheck :: "Order \<Rightarrow> Rider \<Rightarrow> int \<Rightarrow> bool" where
  "shiftTimeCheck order rider now =
     (let timeToPickupMinutes =
            estimateTravelTime (riderLocation rider) (pickupLocation (pickup order)) 25 (12 / 10);
          pickupServiceMinutes = estimatedPickupWaitMinutes (pickup order);
          timeToDeliveryMinutes =
            estimateTravelTime (pickupLocation (pickup order))
              (deliveryLocation (delivery order)) 25 (12 / 10);
          deliveryServiceMinutes = 3;
          totalTimeNeeded = timeToPickupMinutes + pickupServiceMinutes
                            + timeToDeliveryMinutes + deliveryServiceMinutes;
          shiftTimeAvailableMinutes = real_of_int (shiftEndTime (shift rider) - now) / 60000
      in shiftTimeAvailableMinutes \<ge> totalTimeNeeded + 5)"

definition fatigueCheck :: "FatigueConfig \<Rightarrow> Rider \<Rightarrow> bool" where
  "fatigueCheck fatigueConfig rider =
     (continuousDrivingMinutes (shift rider) < maxContinuousDrivingMinutes fatigueConfig
      \<and> totalShiftDrivingMinutes (shift rider) < maxShiftDrivingMinutes fatigueConfig)"

definition slaFeasibilityCheck :: "Order \<Rightarrow> Rider \<Rightarrow> int \<Rightarrow> bool" where
  "slaFeasibilityCheck order rider now =
     (let minTimeMinutes =
            estimateTravelTime (riderLocation rider) (pickupLocation (pickup order)) 25 1
            + estimatedPickupWaitMinutes (pickup order)
            + estimateTravelTime (pickupLocation (pickup order))
                (deliveryLocation (delivery order)) 25 1
            + 3;
          minDeliveryTime = new_Date (real_of_int now + minTimeMinutes * 60 * 1000)
      in minDeliveryTime \<le> slaDeadline order)"

definition riderStatusCheck :: "Rider \<Rightarrow> bool" where
  "riderStatusCheck rider = (riderStatus rider = active \<or> riderStatus rider = on_delivery)"

definition runHardConstraints :: "FatigueConfig \<Rightarrow> Order \<Rightarrow> Rider \<Rightarrow> int \<Rightarrow> CheckResults" where
  "runHardConstraints fatigueConfig order rider now =
     (let failures =
            (if \<not> capacityCheck order rider then [''capacity_exceeded''] else [])
            @ (if \<not> vehicleCompatibilityCheck order rider then [''vehicle_incompatible''] else [])
            @ (if \<not> shiftTimeCheck order rider now then [''shift_end_time''] else [])
            @ (if \<not> fatigueCheck fatigueConfig rider then [''fatigue_limit_exceeded''] else [])
            @ (if \<not> slaFeasibilityCheck order rider now then [''sla_infeasible''] else [])
            @ (if \<not> riderStatusCheck rider then [''rider_offline_or_unavailable''] else [])
      in \<lparr>passed = (failures = []), failedConstraints = failures\<rparr>)"

text \<open>The loop over \<open>candidatesByRadius\<close>: a rider id missing from \<open>riders\<close> is skipped,
  a rider that passes every check is pushed onto \<open>candidates\<close>.\<close>

definition hard_filter ::
  "FatigueConfig \<Rightarrow> Order \<Rightarrow> (string \<times> Rider) list \<Rightarrow> int \<Rightarrow> string list \<Rightarrow> string list" where
  "hard_filter fatigueConfig order rs now candidatesByRadius =
     filter (\<lambda>rid. case map_of rs rid of
                      None \<Rightarrow> False
                    | Some rider \<Rightarrow> passed (runHardConstraints fatigueConfig order rider now))
       candidatesByRadius"

definition generateCandidates ::
  "CandidateGenerationConfig \<Rightarrow> FatigueConfig \<Rightarrow> (string \<times> Location) list \<Rightarrow>
   Order \<Rightarrow> (string \<times> Rider) list \<Rightarrow> int \<Rightarrow> CandidateGenerationResult" where
  "generateCandidates config fatigueConfig riderLocations order rs now =
     (let candidatesByRadius = geographicFilter config riderLocations order now
      in if candidatesByRadius = []
         then \<lparr>cgOrderId = orderId order, candidateRiderIds = [],
               failureReason = Some ''no_riders_in_service_radius''\<rparr>
         else
           (let candidates = hard_filter fatigueConfig order rs now candidatesByRadius
            in if candidates = []
               then \<lparr>cgOrderId = orderId order, candidateRiderIds = [],
                     failureReason = Some ''all_riders_failed_constraints''\<rparr>
               else \<lparr>cgOrderId = orderId order, candidateRiderIds = candidates,
                     failureReason = None\<rparr>))"

section \<open>Batch optimizer (src/algorithms/batching.ts)\<close>

record BatchingConfig =
  maxBatchSize :: "VehicleType \<Rightarrow> real"
  maxBatchDurationMinutes :: real
  twoOptIterationLimit :: nat

record BatchRoute =
  stops :: "RouteStop list"
  totalDistance :: real
  totalDurationMinutes :: real
  ordersSequence :: "string list"

record PartialRoute =
  routeOrders :: "string list"
  duration :: real
  distance :: real

definition validateBatchConstraints :: "BatchingConfig \<Rightarrow> Rider \<Rightarrow> Order list \<Rightarrow> bool" where
  "validateBatchConstraints config rider os =
     (if real (length os) > maxBatchSize config (vehicleType (vehicle rider)) then False
      else
        (let totalWeight = fold (\<lambda>order t. t + weightKg (payload order)) os 0;
             totalVolume = fold (\<lambda>order t. t + volumeLiters (payload order)) os 0;
             totalItems = fold (\<lambda>order t. t + itemCount (payload order)) os 0
         in totalWeight \<le> maxWeightKg (vehicle rider)
            \<and> totalVolume \<le> maxVolumeLiters (vehicle rider)
            \<and> totalItems \<le> maxItems (vehicle rider)))"

definition nearest_scan :: "Location \<Rightarrow> Order list \<Rightarrow> nat \<Rightarrow> xnum \<times> nat \<Rightarrow> xnum \<times> nat" where
  "nearest_scan location os i acc =
     (case acc of (minDistance, nearestIdx) \<Rightarrow>
        (let d = haversineDistance location (pickupLocation (pickup (os ! i)))
         in if xless (Fin d) minDistance then (Fin d, i) else (minDistance, nearestIdx)))"

definition findNearestOrder :: "Location \<Rightarrow> Order list \<Rightarrow> nat" where
  "findNearestOrder location os = snd (fold (nearest_scan location os) [0..<length os] (PosInf, 0))"

text \<open>\<open>Array.prototype.findIndex\<close> and \<open>find\<close>; \<open>None\<close> is -1 and \<open>undefined\<close>.\<close>

fun findIndex :: "('a \<Rightarrow> bool) \<Rightarrow> 'a list \<Rightarrow> nat option" where
  "findIndex P [] = None"
| "findIndex P (x # xs) = (if P x then Some 0 else map_option Suc (findIndex P xs))"

definition estimateRouteDuration :: "Order list \<Rightarrow> real" where
  "estimateRouteDuration os =
     (if os = [] then 0
      else fold (\<lambda>i totalMinutes.
                   totalMinutes + estimatedPickupWaitMinutes (pickup (os ! i)) + 10 + 3
                   + (if i < length os - 1 then 10 else 0))
             [0..<length os] 0)"

definition calculateInsertionCost :: "PartialRoute \<Rightarrow> Order \<Rightarrow> nat \<Rightarrow> Order list \<Rightarrow> real" where
  "calculateInsertionCost route order insertPosition allOrders =
     (let orderIndices = map (\<lambda>oid. findIndex (\<lambda>x. orderId x = oid) allOrders) (routeOrders route)
      in if orderIndices = [] then 0
         else
           (let prevIdx = (if insertPosition = 0 then None
                           else orderIndices ! (insertPosition - 1));
                nextIdx = (if insertPosition < length orderIndices
                           then orderIndices ! insertPosition else None)
            in case prevIdx of
                 Some prv \<Rightarrow>
                   haversineDistance (deliveryLocation (delivery (allOrders ! prv)))
                       (pickupLocation (pickup order))
                   + haversineDistance (pickupLocation (pickup order))
                       (deliveryLocation (delivery order))
                   - (case nextIdx of
                        Some nxt \<Rightarrow>
                          haversineDistance (deliveryLocation (delivery (allOrders ! prv)))
                            (pickupLocation (pickup (allOrders ! nxt)))
                      | None \<Rightarrow> 0)
               | None \<Rightarrow>
                   haversineDistance (pickupLocation (pickup order))
                     (deliveryLocation (delivery order))))"

text \<open>The two nested loops of one \<open>while\<close> pass; the accumulator is
  (bestIncrementalCost, bestOrderIdx, bestInsertPosition), starting at (Infinity, -1, 0).\<close>

definition insertion_scan ::
  "Order list \<Rightarrow> PartialRoute \<Rightarrow> nat \<Rightarrow> nat \<Rightarrow> xnum \<times> nat option \<times> nat \<Rightarrow> xnum \<times> nat option \<times> nat" where
  "insertion_scan os route orderIdx insertPos acc =
     (case acc of (bestCost, bestIdx, bestPos) \<Rightarrow>
        (let incrementalCost = calculateInsertionCost route (os ! orderIdx) insertPos os
         in if xless (Fin incrementalCost) bestCost
            then (Fin incrementalCost, Some orderIdx, insertPos)
            else (bestCost, bestIdx, bestPos)))"

definition best_insertion :: "Order list \<Rightarrow> nat list \<Rightarrow> PartialRoute \<Rightarrow> xnum \<times> nat option \<times> nat" where
  "best_insertion os remaining route =
     fold (\<lambda>orderIdx. fold (insertion_scan os route orderIdx) [0..<length (routeOrders route) + 1])
       remaining (PosInf, None, 0)"

definition insert_order :: "Order list \<Rightarrow> PartialRoute \<Rightarrow> nat \<Rightarrow> nat \<Rightarrow> PartialRoute" where
  "insert_order os route b pos =
     (let ids = take pos (routeOrders route) @ [orderId (os ! b)] @ drop pos (routeOrders route)
      in route\<lparr>routeOrders := ids,
               duration := estimateRouteDuration
                 (List.map_filter (\<lambda>oid. find (\<lambda>x. orderId x = oid) os) ids)\<rparr>)"

text \<open>The index chosen by a pass is one of the remaining orders, so deleting it shortens
  the Set and the \<open>while (remainingOrders.size > 0)\<close> loop terminates.\<close>

lemma insertion_scan_idx:
  "insertion_scan os route orderIdx insertPos acc = (c, Some b, pos)
     \<Longrightarrow> b = orderIdx \<or> (\<exists>c' pos'. acc = (c', Some b, pos'))"
  by (cases acc) (auto simp: insertion_scan_def Let_def split: if_splits)

lemma insertion_scan_fold_idx:
  "fold (insertion_scan os route orderIdx) ps acc = (c, Some b, pos)
     \<Longrightarrow> b = orderIdx \<or> (\<exists>c' pos'. acc = (c', Some b, pos'))"
proof (induction ps arbitrary: acc)
  case Nil
  then show ?case by simp
next
  case (Cons p ps)
  from Cons.IH [of "insertion_scan os route orderIdx p acc"] Cons.prems
  have "b = orderIdx \<or> (\<exists>c' pos'. insertion_scan os route orderIdx p acc = (c', Some b, pos'))"
    by simp
  then show ?case using insertion_scan_idx by blast
qed

lemma best_insertion_fold_mem:
  "fold (\<lambda>orderIdx. fold (insertion_scan os route orderIdx) ps) remaining acc
      = (c, Some b, pos)
     \<Longrightarrow> b \<in> set remaining \<or> (\<exists>c' pos'. acc = (c', Some b, pos'))"
proof (induction remaining arbitrary: acc)
  case Nil
  then show ?case by simp
next
  case (Cons r rs)
  from Cons.IH [of "fold (insertion_scan os route r) ps acc"] Cons.prems
  have "b \<in> set rs
        \<or> (\<exists>c' pos'. fold (insertion_scan os route r) ps acc = (c', Some b, pos'))"
    by simp
  then show ?case using insertion_scan_fold_idx by fastforce
qed

lemma best_insertion_mem:
  "best_insertion os remaining route = (c, Some b, pos) \<Longrightarrow> b \<in> set remaining"
  unfolding best_insertion_def
  using best_insertion_fold_mem
    [of os route "[0..<length (routeOrders route) + 1]" remaining "(PosInf, None, 0)" c b pos]
  by simp

text \<open>The \<open>while\<close> loop of \<open>cheapestInsertionConstruction\<close>; \<open>remaining\<close> is the Set
  \<open>remainingOrders\<close> in insertion order, and a pass that finds no order breaks.\<close>

function insertion_loop :: "Order list \<Rightarrow> nat list \<Rightarrow> PartialRoute \<Rightarrow> PartialRoute" where
  "insertion_loop os remaining route =
     (if remaining = [] then route
      else case best_insertion os remaining route of
             (c, None, pos) \<Rightarrow> route
           | (c, Some b, pos) \<Rightarrow>
               insertion_loop os (removeAll b remaining) (insert_order os route b pos))"
  by pat_completeness auto
termination
proof (relation "measure (\<lambda>(os, remaining, route). length remaining)", goal_cases)
  case 1
  then show ?case by simp
next
  case (2 os remaining route x1 x2 x2a x2b x2c)
  then have "x2c \<in> set remaining" using best_insertion_mem by metis
  then show ?case by (simp add: length_removeAll_less)
qed

definition cheapestInsertionConstruction :: "Rider \<Rightarrow> Order list \<Rightarrow> PartialRoute" where
  "cheapestInsertionConstruction rider os =
     (let nearestIdx = findNearestOrder (riderLocation rider) os;
          remainingOrders = removeAll nearestIdx [0..<length os];
          route = \<lparr>routeOrders = [orderId (os ! nearestIdx)],
                   duration = estimateRouteDuration [os ! nearestIdx],
                   distance = 0\<rparr>
      in insertion_loop os remainingOrders route)"

text \<open>One pass of the \<open>while\<close> body of \<open>twoOptImprovement\<close>: the first (i, j) of the
  double loop is taken unconditionally, and \<open>None\<close> says that no pair exists
  (\<open>improved\<close> stays false).\<close>

definition two_opt_pass :: "string list \<Rightarrow> string list option" where
  "two_opt_pass ids =
     (case concat (map (\<lambda>i. map (\<lambda>j. (i, j)) [i + 2..<length ids]) [0..<length ids - 1]) of
        [] \<Rightarrow> None
      | (i, j) # rest \<Rightarrow>
          Some (take (i + 1) ids @ rev (take (j - i) (drop (i + 1) ids)) @ drop (j + 1) ids))"

text \<open>The \<open>while (improved && iteration < twoOptIterationLimit)\<close> loop; the first
  argument is the number of iterations left.\<close>

fun two_opt_loop :: "nat \<Rightarrow> string list \<Rightarrow> string list" where
  "two_opt_loop 0 ids = ids"
| "two_opt_loop (Suc k) ids =
     (case two_opt_pass ids of None \<Rightarrow> ids | Some ids' \<Rightarrow> two_opt_loop k ids')"

definition twoOptImprovement :: "BatchingConfig \<Rightarrow> PartialRoute \<Rightarrow> PartialRoute" where
  "twoOptImprovement config route =
     route\<lparr>routeOrders := two_opt_loop (twoOptIterationLimit config) (routeOrders route)\<rparr>"

definition buildStopSequence :: "PartialRoute \<Rightarrow> RouteStop list" where
  "buildStopSequence route =
     concat (map (\<lambda>(k, oid).
                    [\<lparr>stopType = stop_pickup, stopOrderId = oid,
                      stopLocation = \<lparr>lat = 0, lng = 0\<rparr>, sequenceIndex = 2 * k\<rparr>,
                     \<lparr>stopType = stop_delivery, stopOrderId = oid,
                      stopLocation = \<lparr>lat = 0, lng = 0\<rparr>, sequenceIndex = 2 * k + 1\<rparr>])
              (enumerate 0 (routeOrders route)))"

text \<open>\<open>optimizeBatch\<close> computes \<open>passConstraints\<close> and branches on it into an empty
  block, so the value does not reach the result.\<close>

definition optimizeBatch :: "BatchingConfig \<Rightarrow> Rider \<Rightarrow> Order list \<Rightarrow> BatchRoute" where
  "optimizeBatch config rider os =
     (if os = [] then \<lparr>stops = [], totalDistance = 0, totalDurationMinutes = 0,
                        ordersSequence = []\<rparr>
      else
        (let passConstraints = validateBatchConstraints config rider os;
             route = twoOptImprovement config (cheapestInsertionConstruction rider os);
             sts = buildStopSequence route
         in \<lparr>stops = sts,
             totalDistance = calculateRouteTotalDistance (map stopLocation sts),
             totalDurationMinutes = duration route,
             ordersSequence = routeOrders route\<rparr>))"

section \<open>ETA model (src/models/eta-model.ts)\<close>

text \<open>
  What the source reads from its environment is a parameter: \<open>dateNow\<close> is the value of
  \<open>Date.now()\<close> (one instant for a whole call), \<open>random k\<close> the value of the k-th
  call of \<open>Math.random()\<close>, and \<open>getHours\<close> the local hour of a time value. The
  number of \<open>Math.random()\<close> calls made so far is kept in the state as \<open>rngCalls\<close>.
\<close>

record Env =
  dateNow :: int
  random :: "nat \<Rightarrow> real"
  getHours :: "int \<Rightarrow> nat"

record ETAConfig =
  trafficApiRefreshSeconds :: real
  riderModelRetrainCron :: string
  serviceTimeDefaults :: "string \<rightharpoonup> real"
  etaCacheMinutes :: real

text \<open>
  \<open>serviceTimeDefaults\<close> is a plain object: reading it at a key that is not one of its own
  finds a member inherited from \<open>Object.prototype\<close> when the key is the name of one, and
  that member is a function or an object. A \<open>jsvalue\<close> is a number, or a value that is
  not a number (such a member, or the string that adding it to a number gives).
\<close>

datatype jsvalue = Num real | NonNumeric

definition Object_prototype_names :: "string list" where
  "Object_prototype_names =
     [''constructor'', ''__defineGetter__'', ''__defineSetter__'', ''hasOwnProperty'',
      ''__lookupGetter__'', ''__lookupSetter__'', ''isPrototypeOf'', ''propertyIsEnumerable'',
      ''toString'', ''valueOf'', ''__proto__'', ''toLocaleString'']"

record ETAEstimate =
  etaOrigin :: Location
  etaDestination :: Location
  departureTime :: int
  estimatedDurationMinutes :: jsvalue
  confidence :: real
  baseTime :: real
  trafficMultiplier :: real
  riderSpeedMultiplier :: real
  serviceTimeMinutes :: jsvalue

record RiderETAModel =
  modelRiderId :: string
  speedMultiplier :: real
  familiarZones :: "string list"
  trainingDatapoints :: nat
  lastUpdated :: int

text \<open>\<open>x.toFixed(4)\<close> is determined by the sign of \<open>x\<close> and the nearest multiple of
  10^-4 of its magnitude (the larger one on a tie); a cache key is the tuple of these
  for the four coordinates, with the departure minute.\<close>

definition toFixed4 :: "real \<Rightarrow> bool \<times> int" where
  "toFixed4 x = (x < 0, \<lfloor>\<bar>x\<bar> * 10000 + 1 / 2\<rfloor>)"

type_synonym CacheKey = "(bool \<times> int) \<times> (bool \<times> int) \<times> (bool \<times> int) \<times> (bool \<times> int) \<times> int"

record ETAModel =
  etaCache :: "(CacheKey \<times> ETAEstimate \<times> int) list"
  riderModelCache :: "(string \<times> RiderETAModel) list"
  rngCalls :: nat

definition generateCacheKey :: "Location \<Rightarrow> Location \<Rightarrow> int \<Rightarrow> CacheKey" where
  "generateCacheKey origin destination departure =
     (let departureMinute = departure div 60000
      in (toFixed4 (lat origin), toFixed4 (lng origin), toFixed4 (lat destination),
          toFixed4 (lng destination), departureMinute))"

definition getTrafficMultiplier :: "nat \<Rightarrow> real" where
  "getTrafficMultiplier hour =
     (if (hour \<ge> 8 \<and> hour \<le> 10) \<or> (hour \<ge> 17 \<and> hour \<le> 19) then 15 / 10
      else if hour \<ge> 22 \<or> hour \<le> 6 then 11 / 10
      else 1)"

definition getRiderSpeedMultiplier :: "Env \<Rightarrow> ETAModel \<Rightarrow> string \<Rightarrow> real \<times> ETAModel" where
  "getRiderSpeedMultiplier env st rid =
     (case map_of (riderModelCache st) rid of
        Some cached \<Rightarrow> (speedMultiplier cached, st)
      | None \<Rightarrow>
          (let multiplier = 8 / 10 + random env (rngCalls st) * (4 / 10);
               model = \<lparr>modelRiderId = rid, speedMultiplier = multiplier, familiarZones = [],
                        trainingDatapoints = 0, lastUpdated = dateNow env\<rparr>
           in (multiplier,
               st\<lparr>riderModelCache := map_set (riderModelCache st) rid model,
                   rngCalls := rngCalls st + 1\<rparr>)))"

text \<open>\<open>if (buildingType) serviceTime = serviceTimeDefaults[buildingType] || 3\<close>: an absent
  or empty \<open>buildingType\<close> is falsy, and so is a missing or zero table entry; an inherited
  member is truthy and becomes the service time.\<close>

definition service_time :: "ETAConfig \<Rightarrow> string option \<Rightarrow> jsvalue" where
  "service_time config buildingType =
     (case buildingType of
        None \<Rightarrow> Num 0
      | Some bt \<Rightarrow>
          if bt = [] then Num 0
          else (case serviceTimeDefaults config bt of
                  Some v \<Rightarrow> if v = 0 then Num 3 else Num v
                | None \<Rightarrow> if bt \<in> set Object_prototype_names then NonNumeric else Num 3))"

text \<open>\<open>travelTime + serviceTime\<close>: a number plus a value that is not a number is a
  string.\<close>

definition js_plus :: "real \<Rightarrow> jsvalue \<Rightarrow> jsvalue" where
  "js_plus a v = (case v of Num b \<Rightarrow> Num (a + b) | NonNumeric \<Rightarrow> NonNumeric)"

text \<open>The cache lookup at the head of \<open>estimateETA\<close>: an entry younger than
  \<open>etaCacheMinutes\<close> is a hit.\<close>

definition cached_estimate :: "Env \<Rightarrow> ETAConfig \<Rightarrow> ETAModel \<Rightarrow> CacheKey \<Rightarrow> ETAEstimate option" where
  "cached_estimate env config st cacheKey =
     (case map_of (etaCache st) cacheKey of
        Some (estimate, cachedAt) \<Rightarrow>
          if real_of_int (dateNow env - cachedAt) < etaCacheMinutes config * 60 * 1000
          then Some estimate else None
      | None \<Rightarrow> None)"

definition estimateETA ::
  "Env \<Rightarrow> ETAConfig \<Rightarrow> ETAModel \<Rightarrow> Location \<Rightarrow> Location \<Rightarrow> int \<Rightarrow> string option \<Rightarrow>
   string option \<Rightarrow> ETAEstimate \<times> ETAModel" where
  "estimateETA env config st origin destination departure rid buildingType =
     (let cacheKey = generateCacheKey origin destination departure
      in case cached_estimate env config st cacheKey of
           Some estimate \<Rightarrow> (estimate, st)
         | None \<Rightarrow>
             (let base = estimateTravelTime origin destination 25 1;
                  hour = getHours env departure;
                  traffic = getTrafficMultiplier hour;
                  (riderSpeed, st1) =
                     (case rid of
                        None \<Rightarrow> (1, st)
                      | Some r \<Rightarrow> if r = [] then (1, st) else getRiderSpeedMultiplier env st r);
                  serviceTime = service_time config buildingType;
                  travelTime = real_of_int (round (base * traffic * riderSpeed));
                  totalTime = js_plus travelTime serviceTime;
                  estimate =
                    \<lparr>etaOrigin = origin, etaDestination = destination, departureTime = departure,
                     estimatedDurationMinutes = totalTime,
                     confidence = 75 / 100 + random env (rngCalls st1) * (2 / 10),
                     baseTime = base, trafficMultiplier = traffic,
                     riderSpeedMultiplier = riderSpeed, serviceTimeMinutes = serviceTime\<rparr>
              in (estimate,
                  st1\<lparr>etaCache := map_set (etaCache st1) cacheKey (estimate, dateNow env),
                       rngCalls := rngCalls st1 + 1\<rparr>)))"

text \<open>A cache is numeric when the duration of each of its estimates is a number.\<close>

definition numeric_cache :: "ETAModel \<Rightarrow> bool" where
  "numeric_cache st \<longleftrightarrow>
     (\<forall>(k, est, t) \<in> set (etaCache st). estimatedDurationMinutes est \<noteq> NonNumeric)"

section \<open>Scorer (src/core/scoring.ts)\<close>

record ScoringWeights =
  w1_time :: real
  w2_slaRisk :: real
  w3_distance :: real
  w4_batchDisruption :: real
  w5_workload :: real
  w6_affinity :: real

record AssignmentCostBreakdown =
  deltaTimeCost :: real
  slaRiskCost :: real
  distanceCost :: real
  batchDisruptionCost :: real
  workloadImbalanceCost :: real
  affinityCost :: real
  totalWeightedCost :: real

record ScoringResult =
  srOrderId :: string
  srRiderId :: string
  cost :: real
  costBreakdown :: AssignmentCostBreakdown

text \<open>The decimal rendering of an integer inside a template string.\<close>

fun digits_of :: "nat \<Rightarrow> string" where
  "digits_of n =
     (if n < 10 then [char_of (48 + n)] else digits_of (n div 10) @ [char_of (48 + n mod 10)])"

definition int_to_string :: "int \<Rightarrow> string" where
  "int_to_string i = (if i < 0 then CHR ''-'' # digits_of (nat (- i)) else digits_of (nat i))"

definition getDeliveryZone :: "Location \<Rightarrow> string" where
  "getDeliveryZone location =
     (let zoneLatBucket = \<lfloor>lat location / (5 / 10)\<rfloor>;
          zoneLngBucket = \<lfloor>lng location / (5 / 10)\<rfloor>
      in ''zone_'' @ int_to_string zoneLatBucket @ ''_'' @ int_to_string zoneLngBucket)"

text \<open>\<open>zoneFamiliarityScores[deliveryZone] || 0.5\<close>: a missing or zero score is falsy.\<close>

definition calculateAffinityCost :: "Order \<Rightarrow> Rider \<Rightarrow> real" where
  "calculateAffinityCost order rider =
     (let deliveryZone = getDeliveryZone (deliveryLocation (delivery order));
          zoneFamiliarity =
            (case zoneFamiliarityScores (performance rider) deliveryZone of
               None \<Rightarrow> 5 / 10
             | Some v \<Rightarrow> if v = 0 then 5 / 10 else v);
          affinityScore1 = 0 + zoneFamiliarity * (5 / 10);
          affinityScore2 = affinityScore1 + avgDeliverySuccessRate (performance rider) * (3 / 10);
          speedBonus = max 0 (avgSpeedMultiplier (performance rider) - 9 / 10) * (2 / 10);
          affinityScore3 = affinityScore2 + speedBonus
      in - (affinityScore3 / 1))"

text \<open>
  The scorer does arithmetic on \<open>estimatedDurationMinutes\<close>. It is the only caller of
  \<open>estimateETA\<close> on the engine's ETA model, which starts with an empty cache, and it
  passes no building type: the estimates it creates and finds are numbers, and the cache
  stays numeric (\<open>estimateETA_numeric\<close> below). An estimate that is not a number can reach
  the scorer only through a cache that a caller outside the engine filled with a building
  type named like an inherited member; the source's arithmetic then gives \<open>NaN\<close>, which
  is not a real, and \<open>minutes_of\<close> is 0 there.
\<close>

definition minutes_of :: "jsvalue \<Rightarrow> real" where
  "minutes_of v = (case v of Num x \<Rightarrow> x | NonNumeric \<Rightarrow> 0)"

definition getCurrentLocation :: "Rider \<Rightarrow> RouteStop" where
  "getCurrentLocation rider =
     (if currentRoute rider = []
      then \<lparr>stopType = stop_pickup, stopOrderId = [], stopLocation = riderLocation rider,
            sequenceIndex = 0\<rparr>
      else last (currentRoute rider))"

definition insertion_step :: "Order \<Rightarrow> Rider \<Rightarrow> nat \<Rightarrow> xnum \<Rightarrow> xnum" where
  "insertion_step order rider insertPos minInsertionCost =
     (let prevStop = (if insertPos = 0 then getCurrentLocation rider
                      else currentRoute rider ! (insertPos - 1));
          nextStop = currentRoute rider ! insertPos;
          distanceToPickup =
            haversineDistance (stopLocation prevStop) (pickupLocation (pickup order));
          distancePickupToNext =
            haversineDistance (pickupLocation (pickup order)) (stopLocation nextStop);
          directDistance = haversineDistance (stopLocation prevStop) (stopLocation nextStop);
          detourCost = distanceToPickup + distancePickupToNext - directDistance;
          insertionCostAtPos = detourCost + 10
      in if xless (Fin insertionCostAtPos) minInsertionCost then Fin insertionCostAtPos
         else minInsertionCost)"

text \<open>The scorer's own \<open>calculateInsertionCost\<close>; the final test
  \<open>minInsertionCost > Infinity\<close> is never true.\<close>

definition scorerInsertionCost :: "Order \<Rightarrow> Rider \<Rightarrow> xnum" where
  "scorerInsertionCost order rider =
     (if length (currentRoute rider) < 2 then Fin 0
      else (let minInsertionCost =
                  fold (insertion_step order rider) [0..<length (currentRoute rider)] PosInf
            in if xless PosInf minInsertionCost then Fin 0 else minInsertionCost))"

text \<open>\<open>Math.min(1.0, insertionCost / 60)\<close> is 1 for an \<open>Infinity\<close>; the insertion cost is
  never \<open>-Infinity\<close>.\<close>

definition calculateDeltaTimeCost ::
  "Env \<Rightarrow> ETAConfig \<Rightarrow> ETAModel \<Rightarrow> Order \<Rightarrow> Rider \<Rightarrow> int \<Rightarrow> real \<times> ETAModel" where
  "calculateDeltaTimeCost env config st order rider now =
     (if currentAssignments rider = [] then
        (let (etaPickup, st1) =
               estimateETA env config st (riderLocation rider) (pickupLocation (pickup order))
                 now (Some (riderId rider)) None;
             (etaDelivery, st2) =
               estimateETA env config st1 (pickupLocation (pickup order))
                 (deliveryLocation (delivery order))
                 (new_Date (real_of_int now
                            + minutes_of (estimatedDurationMinutes etaPickup) * 60 * 1000))
                 (Some (riderId rider)) None;
             totalMinutes = minutes_of (estimatedDurationMinutes etaPickup)
                            + minutes_of (estimatedDurationMinutes etaDelivery)
         in (min 1 (totalMinutes / 120), st2))
      else
        (case scorerInsertionCost order rider of
           Fin c \<Rightarrow> (min 1 (c / 60), st)
         | PosInf \<Rightarrow> (1, st)
         | NegInf \<Rightarrow> (0, st)))"

definition calculateSLARiskCost ::
  "Env \<Rightarrow> ETAConfig \<Rightarrow> real \<Rightarrow> ETAModel \<Rightarrow> Order \<Rightarrow> Rider \<Rightarrow> int \<Rightarrow> real \<times> ETAModel" where
  "calculateSLARiskCost env config slaRiskSigmoidScale st order rider now =
     (let (eta, st1) =
            estimateETA env config st (riderLocation rider) (deliveryLocation (delivery order))
              now (Some (riderId rider)) None;
          estimatedDeliveryTime =
            new_Date (real_of_int now + minutes_of (estimatedDurationMinutes eta) * 60 * 1000);
          slackMinutes = real_of_int (slaDeadline order - estimatedDeliveryTime) / 60000;
          riskProbability = 1 / (1 + exp (slackMinutes / slaRiskSigmoidScale))
      in (max 0 (min 1 riskProbability), st1))"

definition calculateDistanceCost :: "Order \<Rightarrow> Rider \<Rightarrow> real" where
  "calculateDistanceCost order rider =
     (let distanceKm = haversineDistance (riderLocation rider) (pickupLocation (pickup order))
      in min 1 (distanceKm / 20))"

definition calculateBatchDisruptionCost :: "Rider \<Rightarrow> real" where
  "calculateBatchDisruptionCost rider =
     (if currentRoute rider = [] then 0
      else (let estimatedAddedDurationMinutes = 20 :: real;
                totalSLARiskIncrease =
                  fold (\<lambda>x t. if estimatedAddedDurationMinutes > 15 then t + 2 / 10 else t)
                    (currentAssignments rider) 0
            in min 1 totalSLARiskIncrease))"

definition calculateWorkloadImbalanceCost :: "Rider \<Rightarrow> real" where
  "calculateWorkloadImbalanceCost rider =
     (let loadScore = (loadWeightKg (load rider) / maxWeightKg (vehicle rider)) * (7 / 10)
                      + (loadItemCount (load rider) / maxItems (vehicle rider)) * (3 / 10)
      in if loadScore < 7 / 10 then 0 else min 1 ((loadScore - 7 / 10) / (3 / 10)))"

definition scoreAssignment ::
  "Env \<Rightarrow> ETAConfig \<Rightarrow> ScoringWeights \<Rightarrow> real \<Rightarrow> ETAModel \<Rightarrow> Order \<Rightarrow> Rider \<Rightarrow> int \<Rightarrow>
   ScoringResult \<times> ETAModel" where
  "scoreAssignment env config weights slaRiskSigmoidScale st order rider now =
     (let (dt, st1) = calculateDeltaTimeCost env config st order rider now;
          (sr, st2) = calculateSLARiskCost env config slaRiskSigmoidScale st1 order rider now;
          dc = calculateDistanceCost order rider;
          bd = calculateBatchDisruptionCost rider;
          wl = calculateWorkloadImbalanceCost rider;
          af = calculateAffinityCost order rider;
          total = w1_time weights * dt + w2_slaRisk weights * sr + w3_distance weights * dc
                  + w4_batchDisruption weights * bd + w5_workload weights * wl
                  + w6_affinity weights * af
      in (\<lparr>srOrderId = orderId order, srRiderId = riderId rider, cost = total,
           costBreakdown =
             \<lparr>deltaTimeCost = dt, slaRiskCost = sr, distanceCost = dc,
              batchDisruptionCost = bd, workloadImbalanceCost = wl, affinityCost = af,
              totalWeightedCost = total\<rparr>\<rparr>,
          st2))"

section \<open>Reassignment engine (src/services/reassignment-engine.ts)\<close>

record Assignment =
  assignmentId :: string
  asgOrderId :: string
  asgRiderId :: string
  assignedAt :: int
  estimatedDeliveryAt :: int

record ReassignmentConfig =
  maxReassignmentAttempts :: real
  suppressionRadiusMeters :: real
  triggerEtaSpikeMinutes :: real
  triggerHighPrioritySlaCutoffMinutes :: real

datatype TriggerType =
  rider_offline | eta_spike | high_priority_arrival | rider_rejection | order_modification
  | new_rider_online

record ReassignmentTrigger =
  triggerType :: TriggerType
  affectedOrderIds :: "string list"
  affectedRiderIds :: "string list"
  reason :: string
  timestamp :: int

text \<open>A JavaScript \<open>Set\<close> is a list without repetitions in insertion order.\<close>

definition set_add :: "'a list \<Rightarrow> 'a \<Rightarrow> 'a list" where
  "set_add xs x = (if x \<in> set xs then xs else xs @ [x])"

text \<open>The inner loop over \<open>assignments\<close> for one priority order; the accumulator is
  (affectedOrders, affectedRiders).\<close>

definition arrival_scan ::
  "(string \<times> Order) list \<Rightarrow> (string \<times> Rider) list \<Rightarrow> Order \<Rightarrow> Assignment \<Rightarrow>
   string list \<times> string list \<Rightarrow> string list \<times> string list" where
  "arrival_scan os rs order assignment acc =
     (case acc of (affectedOrders, affectedRiders) \<Rightarrow>
        (case (map_of os (asgOrderId assignment), map_of rs (asgRiderId assignment)) of
           (Some assignedOrder, Some rider) \<Rightarrow>
             if priority assignedOrder = normal
                \<and> haversineDistance (riderLocation rider) (pickupLocation (pickup order)) < 3
             then (set_add affectedOrders (orderId order), set_add affectedRiders (riderId rider))
             else (affectedOrders, affectedRiders)
         | _ \<Rightarrow> (affectedOrders, affectedRiders)))"

definition arrival_order ::
  "ReassignmentConfig \<Rightarrow> (string \<times> Order) list \<Rightarrow> (string \<times> Assignment) list \<Rightarrow>
   (string \<times> Rider) list \<Rightarrow> int \<Rightarrow> Order \<Rightarrow> string list \<times> string list \<Rightarrow> string list \<times> string list" where
  "arrival_order config os asgs rs now order acc =
     (let slaCutoffTime =
            new_Date (real_of_int now + triggerHighPrioritySlaCutoffMinutes config * 60 * 1000)
      in if slaDeadline order \<le> slaCutoffTime
         then fold (arrival_scan os rs order) (map snd asgs) acc
         else acc)"

definition detectHighPriorityArrivals ::
  "ReassignmentConfig \<Rightarrow> (string \<times> Order) list \<Rightarrow> (string \<times> Assignment) list \<Rightarrow>
   (string \<times> Rider) list \<Rightarrow> int \<Rightarrow> ReassignmentTrigger list" where
  "detectHighPriorityArrivals config os asgs rs now =
     (let priorityOrders =
            filter (\<lambda>x. priority x = critical
                         \<or> (priority x = high \<and> map_of asgs (orderId x) = None))
              (map snd os);
          (affectedOrders, affectedRiders) =
            fold (arrival_order config os asgs rs now) priorityOrders ([], [])
      in if affectedOrders \<noteq> []
         then [\<lparr>triggerType = high_priority_arrival, affectedOrderIds = affectedOrders,
                affectedRiderIds = affectedRiders,
                reason = digits_of (length affectedOrders)
                         @ '' high-priority orders need immediate assignment'',
                timestamp = now\<rparr>]
         else [])"

section \<open>Configuration (config.ts, the source text at the end of README.md)\<close>

record SurgeConfig =
  softSurgeRatio :: real
  hardSurgeRatio :: real
  crisisRatio :: real
  prepositionLookbackMinutes :: real
  batchSizeIncrement :: real
  radiusExpansionFactor :: real

record SLAConfig =
  nearBreachThresholdMinutes :: real
  breachEscalationAlertThresholdPct :: real
  slaRiskSigmoidScale :: real

record AssignmentEngineConfig =
  cycleIntervalSeconds :: real
  maxOrdersPerCycle :: real
  maxRidersPerAssignment :: real
  optimizerTimeoutSeconds :: real
  hungarianThreshold :: real
  weights :: ScoringWeights
  candidateGeneration :: CandidateGenerationConfig
  batching :: BatchingConfig
  reassignment :: ReassignmentConfig
  surge :: SurgeConfig
  eta :: ETAConfig
  fatigue :: FatigueConfig
  sla :: SLAConfig

definition DEFAULT_SCORING_WEIGHTS :: ScoringWeights where
  "DEFAULT_SCORING_WEIGHTS =
     \<lparr>w1_time = 30 / 100, w2_slaRisk = 35 / 100, w3_distance = 15 / 100,
      w4_batchDisruption = 12 / 100, w5_workload = 5 / 100, w6_affinity = 3 / 100\<rparr>"

definition DEFAULT_CANDIDATE_GENERATION_CONFIG :: CandidateGenerationConfig where
  "DEFAULT_CANDIDATE_GENERATION_CONFIG =
     \<lparr>initialRadiusKm = 5, expandedRadiusKm = 10, maxRadiusKm = 20,
      radiusExpansionMinutesThreshold = 20\<rparr>"

definition DEFAULT_BATCHING_CONFIG :: BatchingConfig where
  "DEFAULT_BATCHING_CONFIG =
     \<lparr>maxBatchSize = (\<lambda>t. case t of bike \<Rightarrow> 3 | car \<Rightarrow> 5 | van \<Rightarrow> 8),
      maxBatchDurationMinutes = 45, twoOptIterationLimit = 100\<rparr>"

definition DEFAULT_REASSIGNMENT_CONFIG :: ReassignmentConfig where
  "DEFAULT_REASSIGNMENT_CONFIG =
     \<lparr>maxReassignmentAttempts = 3, suppressionRadiusMeters = 500,
      triggerEtaSpikeMinutes = 15, triggerHighPrioritySlaCutoffMinutes = 20\<rparr>"

definition DEFAULT_SURGE_CONFIG :: SurgeConfig where
  "DEFAULT_SURGE_CONFIG =
     \<lparr>softSurgeRatio = 12 / 10, hardSurgeRatio = 15 / 10, crisisRatio = 2,
      prepositionLookbackMinutes = 30, batchSizeIncrement = 1,
      radiusExpansionFactor = 15 / 10\<rparr>"

definition DEFAULT_ETA_CONFIG :: ETAConfig where
  "DEFAULT_ETA_CONFIG =
     \<lparr>trafficApiRefreshSeconds = 60, riderModelRetrainCron = ''0 2 * * *'',
      serviceTimeDefaults =
        [''restaurant_pickup'' \<mapsto> 5, ''dark_store_pickup'' \<mapsto> 2,
         ''apartment_delivery'' \<mapsto> 4, ''ground_floor_delivery'' \<mapsto> 2,
         ''house_delivery'' \<mapsto> 3, ''commercial_delivery'' \<mapsto> 2],
      etaCacheMinutes = 5\<rparr>"

definition DEFAULT_FATIGUE_CONFIG :: FatigueConfig where
  "DEFAULT_FATIGUE_CONFIG =
     \<lparr>maxContinuousDrivingMinutes = 120, mandatoryBreakMinutes = 15,
      maxShiftDrivingMinutes = 480\<rparr>"

definition DEFAULT_SLA_CONFIG :: SLAConfig where
  "DEFAULT_SLA_CONFIG =
     \<lparr>nearBreachThresholdMinutes = 20, breachEscalationAlertThresholdPct = 2,
      slaRiskSigmoidScale = 10\<rparr>"

definition DEFAULT_ENGINE_CONFIG :: AssignmentEngineConfig where
  "DEFAULT_ENGINE_CONFIG =
     \<lparr>cycleIntervalSeconds = 30, maxOrdersPerCycle = 500, maxRidersPerAssignment = 150,
      optimizerTimeoutSeconds = 15 / 10, hungarianThreshold = 10000,
      weights = DEFAULT_SCORING_WEIGHTS,
      candidateGeneration = DEFAULT_CANDIDATE_GENERATION_CONFIG,
      batching = DEFAULT_BATCHING_CONFIG,
      reassignment = DEFAULT_REASSIGNMENT_CONFIG,
      surge = DEFAULT_SURGE_CONFIG,
      eta = DEFAULT_ETA_CONFIG,
      fatigue = DEFAULT_FATIGUE_CONFIG,
      sla = DEFAULT_SLA_CONFIG\<rparr>"

text \<open>
  A \<open>ConfigurationBuilder\<close> holds the configuration under construction. The constructor
  argument \<open>Partial<AssignmentEngineConfig>\<close> gives each top-level field or not; a group
  that is given replaces the default group field by field, and all its fields are
  present by its type.
\<close>

record BaseConfig =
  b_cycleIntervalSeconds :: "real option"
  b_maxOrdersPerCycle :: "real option"
  b_maxRidersPerAssignment :: "real option"
  b_optimizerTimeoutSeconds :: "real option"
  b_hungarianThreshold :: "real option"
  b_weights :: "ScoringWeights option"
  b_candidateGeneration :: "CandidateGenerationConfig option"
  b_batching :: "BatchingConfig option"
  b_reassignment :: "ReassignmentConfig option"
  b_surge :: "SurgeConfig option"
  b_eta :: "ETAConfig option"
  b_fatigue :: "FatigueConfig option"
  b_sla :: "SLAConfig option"

definition or_default :: "'a option \<Rightarrow> 'a \<Rightarrow> 'a" where
  "or_default x d = (case x of None \<Rightarrow> d | Some v \<Rightarrow> v)"

definition ConfigurationBuilder :: "BaseConfig \<Rightarrow> AssignmentEngineConfig" where
  "ConfigurationBuilder baseConfig =
     \<lparr>cycleIntervalSeconds = or_default (b_cycleIntervalSeconds baseConfig) 30,
      maxOrdersPerCycle = or_default (b_maxOrdersPerCycle baseConfig) 500,
      maxRidersPerAssignment = or_default (b_maxRidersPerAssignment baseConfig) 150,
      optimizerTimeoutSeconds = or_default (b_optimizerTimeoutSeconds baseConfig) (15 / 10),
      hungarianThreshold = or_default (b_hungarianThreshold baseConfig) 10000,
      weights = or_default (b_weights baseConfig) DEFAULT_SCORING_WEIGHTS,
      candidateGeneration =
        or_default (b_candidateGeneration baseConfig) DEFAULT_CANDIDATE_GENERATION_CONFIG,
      batching = or_default (b_batching baseConfig) DEFAULT_BATCHING_CONFIG,
      reassignment = or_default (b_reassignment baseConfig) DEFAULT_REASSIGNMENT_CONFIG,
      surge = or_default (b_surge baseConfig) DEFAULT_SURGE_CONFIG,
      eta = or_default (b_eta baseConfig) DEFAULT_ETA_CONFIG,
      fatigue = or_default (b_fatigue baseConfig) DEFAULT_FATIGUE_CONFIG,
      sla = or_default (b_sla baseConfig) DEFAULT_SLA_CONFIG\<rparr>"

definition no_base :: BaseConfig where
  "no_base =
     \<lparr>b_cycleIntervalSeconds = None, b_maxOrdersPerCycle = None,
      b_maxRidersPerAssignment = None, b_optimizerTimeoutSeconds = None,
      b_hungarianThreshold = None, b_weights = None, b_candidateGeneration = None,
      b_batching = None, b_reassignment = None, b_surge = None, b_eta = None,
      b_fatigue = None, b_sla = None\<rparr>"

datatype WeightKey = k_w1_time | k_w2_slaRisk | k_w3_distance | k_w4_batchDisruption
  | k_w5_workload | k_w6_affinity

definition setWeight :: "WeightKey \<Rightarrow> real \<Rightarrow> AssignmentEngineConfig \<Rightarrow> AssignmentEngineConfig" where
  "setWeight key v c =
     c\<lparr>weights :=
         (case key of
            k_w1_time \<Rightarrow> (weights c)\<lparr>w1_time := v\<rparr>
          | k_w2_slaRisk \<Rightarrow> (weights c)\<lparr>w2_slaRisk := v\<rparr>
          | k_w3_distance \<Rightarrow> (weights c)\<lparr>w3_distance := v\<rparr>
          | k_w4_batchDisruption \<Rightarrow> (weights c)\<lparr>w4_batchDisruption := v\<rparr>
          | k_w5_workload \<Rightarrow> (weights c)\<lparr>w5_workload := v\<rparr>
          | k_w6_affinity \<Rightarrow> (weights c)\<lparr>w6_affinity := v\<rparr>)\<rparr>"

text \<open>\<open>setWeights\<close> takes a partial weights object: the keys it gives, in order.\<close>

definition setWeights :: "(WeightKey \<times> real) list \<Rightarrow> AssignmentEngineConfig \<Rightarrow> AssignmentEngineConfig" where
  "setWeights ws c = fold (\<lambda>(key, v). setWeight key v) ws c"

definition setCycleInterval :: "real \<Rightarrow> AssignmentEngineConfig \<Rightarrow> AssignmentEngineConfig" where
  "setCycleInterval seconds c = c\<lparr>cycleIntervalSeconds := seconds\<rparr>"

definition setSLARiskScale :: "real \<Rightarrow> AssignmentEngineConfig \<Rightarrow> AssignmentEngineConfig" where
  "setSLARiskScale scale c = c\<lparr>sla := (sla c)\<lparr>slaRiskSigmoidScale := scale\<rparr>\<rparr>"

definition setSurgeRatios ::
  "real \<Rightarrow> real \<Rightarrow> real \<Rightarrow> AssignmentEngineConfig \<Rightarrow> AssignmentEngineConfig" where
  "setSurgeRatios softRatio hardRatio crisis c =
     c\<lparr>surge := (surge c)\<lparr>softSurgeRatio := softRatio, hardSurgeRatio := hardRatio,
                             crisisRatio := crisis\<rparr>\<rparr>"

definition setMaxBatchSizes ::
  "(VehicleType \<Rightarrow> real) \<Rightarrow> AssignmentEngineConfig \<Rightarrow> AssignmentEngineConfig" where
  "setMaxBatchSizes batchSizes c = c\<lparr>batching := (batching c)\<lparr>maxBatchSize := batchSizes\<rparr>\<rparr>"

datatype config_error = WeightsMustSumToOne real

text \<open>
  The sum and the difference that \<open>build\<close> computes are double-precision operations, and
  their rounding decides the test at its boundary. \<open>fl_add\<close>, the double-precision
  addition, is a parameter of the model (\<open>a - b\<close> is the addition of \<open>a\<close> and \<open>-b\<close>);
  \<open>double_0_01\<close> is the double that the literal \<open>0.01\<close> denotes. \<open>Object.values\<close> lists
  the six weights in the order of the default object.
\<close>

definition double_0_01 :: real where
  "double_0_01 = 5764607523034235 / 2 ^ 59"

definition weightSum :: "(real \<Rightarrow> real \<Rightarrow> real) \<Rightarrow> ScoringWeights \<Rightarrow> real" where
  "weightSum fl_add w =
     fold (\<lambda>b a. fl_add a b)
       [w1_time w, w2_slaRisk w, w3_distance w, w4_batchDisruption w, w5_workload w,
        w6_affinity w] 0"

text \<open>\<open>build\<close>: the \<open>throw\<close> is \<open>Inl\<close>, the returned configuration \<open>Inr\<close>.\<close>

definition build ::
  "(real \<Rightarrow> real \<Rightarrow> real) \<Rightarrow> AssignmentEngineConfig \<Rightarrow> config_error + AssignmentEngineConfig" where
  "build fl_add c =
     (let s = weightSum fl_add (weights c)
      in if \<bar>fl_add s (- 1)\<bar> > double_0_01 then Inl (WeightsMustSumToOne s) else Inr c)"

text \<open>An addition is accurate when, on operands of magnitude at most 2, it differs from
  the exact sum by at most 10^-12; the double-precision addition is.\<close>

definition accurate :: "(real \<Rightarrow> real \<Rightarrow> real) \<Rightarrow> bool" where
  "accurate fl_add \<longleftrightarrow>
     (\<forall>a b. \<bar>a\<bar> \<le> 2 \<and> \<bar>b\<bar> \<le> 2 \<longrightarrow> \<bar>fl_add a b - (a + b)\<bar> \<le> 1 / 10 ^ 12)"

section \<open>Cycle orchestrator (src/engine/assignment-engine.ts)\<close>

text \<open>
  The engine owns the order and rider Maps, the rider locations of its candidate
  generator and the ETA model. \<open>executeCycle\<close> is modelled up to the value it returns and
  the orders, riders and ETA model it leaves behind after recording the decisions; the
  surge state, the reassignment scan that follows (bounded loops over the same Maps) and
  the cycle history do not enter the returned counts and \<open>avgCost\<close>, and are left out,
  as are the cycle id and the rider utilization.
\<close>

record AssignmentDecision =
  decOrderId :: string
  decRiderId :: string
  decSequenceIndex :: nat

record CycleMetrics =
  avgCost :: real
  totalSlaSlackMinutes :: real

record AssignmentCycleResult =
  cycleTimestamp :: int
  decisions :: "AssignmentDecision list"
  successCount :: int
  failureCount :: int
  metrics :: CycleMetrics

record Engine =
  engineConfig :: AssignmentEngineConfig
  engineOrders :: "(string \<times> Order) list"
  engineRiders :: "(string \<times> Rider) list"
  riderLocations :: "(string \<times> Location) list"
  etaModel :: ETAModel

definition updateState :: "(string \<times> Order) list \<Rightarrow> (string \<times> Rider) list \<Rightarrow> Engine \<Rightarrow> Engine" where
  "updateState os rs e =
     e\<lparr>engineOrders := os, engineRiders := rs, riderLocations := updateRiderLocations rs\<rparr>"

definition stage1CandidateGeneration :: "Engine \<Rightarrow> Order list \<Rightarrow> int \<Rightarrow> (string \<times> string list) list" where
  "stage1CandidateGeneration e os now =
     fold (\<lambda>order candidates.
             (let result = generateCandidates (candidateGeneration (engineConfig e))
                             (fatigue (engineConfig e)) (riderLocations e) order
                             (engineRiders e) now
              in map_set candidates (cgOrderId result) (candidateRiderIds result)))
       os []"

text \<open>The inner loop of \<open>stage2Scoring\<close> for one candidate rider id; the accumulator is the
  list \<open>scores\<close> with the state of the ETA model.\<close>

definition score_candidate ::
  "Env \<Rightarrow> Engine \<Rightarrow> Order \<Rightarrow> int \<Rightarrow> string \<Rightarrow> ScoringResult list \<times> ETAModel \<Rightarrow>
   ScoringResult list \<times> ETAModel" where
  "score_candidate env e order now rid acc =
     (case acc of (scores, st) \<Rightarrow>
        (case map_of (engineRiders e) rid of
           None \<Rightarrow> (scores, st)
         | Some rider \<Rightarrow>
             (let (score, st') =
                    scoreAssignment env (eta (engineConfig e)) (weights (engineConfig e))
                      (slaRiskSigmoidScale (sla (engineConfig e))) st order rider now
              in (scores @ [score], st'))))"

definition stage2Scoring ::
  "Env \<Rightarrow> Engine \<Rightarrow> Order list \<Rightarrow> (string \<times> string list) list \<Rightarrow> int \<Rightarrow>
   ScoringResult list \<times> ETAModel" where
  "stage2Scoring env e os candidates now =
     fold (\<lambda>order acc.
             (let candidateRiders = or_default (map_of candidates (orderId order)) []
              in fold (score_candidate env e order now) candidateRiders acc))
       os ([], etaModel e)"

text \<open>\<open>Array.from(new Set(xs))\<close> keeps the first occurrence of every element.\<close>

definition dedupe :: "'a list \<Rightarrow> 'a list" where
  "dedupe xs = fold (\<lambda>x acc. set_add acc x) xs []"

definition indexOf :: "'a list \<Rightarrow> 'a \<Rightarrow> nat" where
  "indexOf xs x = or_default (findIndex (\<lambda>y. y = x) xs) 0"

definition build_matrix :: "ScoringResult list \<Rightarrow> AssignmentMatrix" where
  "build_matrix scores =
     (let orderIds = dedupe (map srOrderId scores);
          riderIds = dedupe (map srRiderId scores);
          blank = replicate (length orderIds) (replicate (length riderIds) (10 ^ 10))
      in \<lparr>orders = orderIds, riders = riderIds,
          costMatrix =
            fold (\<lambda>score cm.
                    (let orderIdx = indexOf orderIds (srOrderId score);
                         riderIdx = indexOf riderIds (srRiderId score)
                     in cm[orderIdx := (cm ! orderIdx)[riderIdx := cost score]]))
              scores blank\<rparr>)"

definition stage3GlobalOptimization ::
  "Engine \<Rightarrow> ScoringResult list \<Rightarrow> (string \<times> string) list option" where
  "stage3GlobalOptimization e scores =
     map_option assignments
       (adaptive_optimize (build_matrix scores) (hungarianThreshold (engineConfig e)))"

text \<open>Objects held in a Map are mutated in place: the entry under the key is replaced.\<close>

definition map_modify :: "'k \<Rightarrow> ('v \<Rightarrow> 'v) \<Rightarrow> ('k \<times> 'v) list \<Rightarrow> ('k \<times> 'v) list" where
  "map_modify k f kvs = map (\<lambda>(k', v). if k' = k then (k', f v) else (k', v)) kvs"

text \<open>The body of the loop of \<open>createAssignmentDecisions\<close>; the accumulator is
  (decisions, orders, riders).\<close>

definition decide ::
  "string \<times> string \<Rightarrow>
   AssignmentDecision list \<times> (string \<times> Order) list \<times> (string \<times> Rider) list \<Rightarrow>
   AssignmentDecision list \<times> (string \<times> Order) list \<times> (string \<times> Rider) list" where
  "decide entry acc =
     (case (entry, acc) of ((oid, rid), (ds, os, rs)) \<Rightarrow>
        (case (map_of os oid, map_of rs rid) of
           (Some order, Some rider) \<Rightarrow>
             (ds @ [\<lparr>decOrderId = oid, decRiderId = rid,
                      decSequenceIndex = length (currentAssignments rider)\<rparr>],
              map_modify oid
                (\<lambda>x. x\<lparr>status := assigned, assignedRiderId := Some rid,
                         assignmentAttempts := assignmentAttempts x + 1\<rparr>) os,
              map_modify rid
                (\<lambda>r. r\<lparr>currentAssignments := currentAssignments r @ [oid]\<rparr>) rs)
         | _ \<Rightarrow> (ds, os, rs)))"

definition createAssignmentDecisions ::
  "(string \<times> string) list \<Rightarrow> (string \<times> Order) list \<Rightarrow> (string \<times> Rider) list \<Rightarrow>
   AssignmentDecision list \<times> (string \<times> Order) list \<times> (string \<times> Rider) list" where
  "createAssignmentDecisions asg os rs = fold decide asg ([], os, rs)"

definition calculateAverageCost :: "AssignmentDecision list \<Rightarrow> real" where
  "calculateAverageCost ds = (if length ds = 0 then 0 else 5 / 10)"

definition calculateTotalSlaSlack :: "Env \<Rightarrow> (string \<times> Order) list \<Rightarrow> AssignmentDecision list \<Rightarrow> real" where
  "calculateTotalSlaSlack env os ds =
     fold (\<lambda>decision total.
             (case map_of os (decOrderId decision) of
                Some order \<Rightarrow> total + real_of_int (slaDeadline order - dateNow env) / 60000
              | None \<Rightarrow> total))
       ds 0"

text \<open>\<open>executeCycle\<close> returns the cycle result with the engine after the cycle, or does not
  return (\<open>None\<close>) when the exact solver does not.\<close>

definition executeCycle :: "Env \<Rightarrow> Engine \<Rightarrow> (AssignmentCycleResult \<times> Engine) option" where
  "executeCycle env e =
     (let now = dateNow env;
          unassignedOrders = filter (\<lambda>x. status x = pending_assignment) (map snd (engineOrders e))
      in if length unassignedOrders = 0
         then Some (\<lparr>cycleTimestamp = now, decisions = [], successCount = 0, failureCount = 0,
                     metrics = \<lparr>avgCost = 0, totalSlaSlackMinutes = 0\<rparr>\<rparr>, e)
         else
           (let candidates = stage1CandidateGeneration e unassignedOrders now;
                (scores, st) = stage2Scoring env e unassignedOrders candidates now
            in case stage3GlobalOptimization e scores of
                 None \<Rightarrow> None
               | Some asg \<Rightarrow>
                   (let (ds, os, rs) =
                          createAssignmentDecisions asg (engineOrders e) (engineRiders e)
                    in Some (\<lparr>cycleTimestamp = now, decisions = ds,
                               successCount = int (length ds),
                               failureCount = int (length unassignedOrders) - int (length ds),
                               metrics = \<lparr>avgCost = calculateAverageCost ds,
                                          totalSlaSlackMinutes =
                                            calculateTotalSlaSlack env os ds\<rparr>\<rparr>,
                             e\<lparr>engineOrders := os, engineRiders := rs, etaModel := st\<rparr>))))"

section \<open>Example inputs\<close>

text \<open>
  One location for every point of the examples, so that all distances are zero; an
  order with a fragile payload and no vehicle requirement; a bike rider whose vehicle
  has only the standard capability; an environment at time 0, local hour 12, whose
  \<open>Math.random()\<close> returns 0.
\<close>

definition depot :: Location where
  "depot = \<lparr>lat = 12972 / 1000, lng = 77594 / 1000\<rparr>"

definition fragile_order :: Order where
  "fragile_order =
     \<lparr>orderId = ''fragile_order'', status = pending_assignment, slaDeadline = 3600000,
      pickup = \<lparr>pickupLocation = depot, estimatedPickupWaitMinutes = 5\<rparr>,
      delivery = \<lparr>deliveryLocation = depot\<rparr>,
      payload = \<lparr>weightKg = 2, volumeLiters = 2, itemCount = 1, requiresColdChain = False,
                 fragile = True, vehicleRequirement = req_any\<rparr>,
      priority = normal, assignmentAttempts = 0, assignedRiderId = None\<rparr>"

definition standard_rider :: Rider where
  "standard_rider =
     \<lparr>riderId = ''rider_1'', riderStatus = active, riderLocation = depot,
      vehicle = \<lparr>vehicleType = bike, maxWeightKg = 5, maxVolumeLiters = 20, maxItems = 3,
                 capabilities = [standard]\<rparr>,
      shift = \<lparr>shiftEndTime = 14400000, continuousDrivingMinutes = 0,
               totalShiftDrivingMinutes = 0\<rparr>,
      currentAssignments = [], currentRoute = [],
      load = \<lparr>loadWeightKg = 0, loadVolumeLiters = 0, loadItemCount = 0\<rparr>,
      performance = \<lparr>zoneFamiliarityScores = Map.empty, avgDeliverySuccessRate = 1,
                     avgSpeedMultiplier = 1\<rparr>\<rparr>"

definition noon_env :: Env where
  "noon_env = \<lparr>dateNow = 0, random = (\<lambda>k. 0), getHours = (\<lambda>t. 12)\<rparr>"

definition empty_model :: ETAModel where
  "empty_model = \<lparr>etaCache = [], riderModelCache = [], rngCalls = 0\<rparr>"

text \<open>An engine with the default configuration after
  \<open>updateState\<close> with the one order and the one rider.\<close>

definition one_order_engine :: Engine where
  "one_order_engine =
     updateState [(''fragile_order'', fragile_order)] [(''rider_1'', standard_rider)]
       \<lparr>engineConfig = DEFAULT_ENGINE_CONFIG, engineOrders = [], engineRiders = [],
        riderLocations = [], etaModel = empty_model\<rparr>"

text \<open>Four orders of 2 kg each for the bike (batch limit 3, capacity 5 kg).\<close>

definition four_orders :: "Order list" where
  "four_orders =
     map (\<lambda>oid. fragile_order\<lparr>orderId := oid\<rparr>) [''ord_1'', ''ord_2'', ''ord_3'', ''ord_4'']"

text \<open>A critical order due in ten minutes, and a normal order assigned to a rider who
  stands at the critical order's pickup.\<close>

definition critical_order :: Order where
  "critical_order =
     fragile_order\<lparr>orderId := ''critical_1'', priority := critical, slaDeadline := 600000\<rparr>"

definition normal_order :: Order where
  "normal_order =
     fragile_order\<lparr>orderId := ''normal_1'', status := assigned,
                   assignedRiderId := Some ''rider_1''\<rparr>"

definition normal_assignment :: Assignment where
  "normal_assignment =
     \<lparr>assignmentId = ''asg_1'', asgOrderId = ''normal_1'', asgRiderId = ''rider_1'',
      assignedAt = 0, estimatedDeliveryAt = 1200000\<rparr>"

text \<open>The scorer cost of the one pair of the example cycle, under the default weights.\<close>

definition example_cost :: real where
  "example_cost =
     cost (fst (scoreAssignment noon_env (eta DEFAULT_ENGINE_CONFIG)
                  (weights DEFAULT_ENGINE_CONFIG)
                  (slaRiskSigmoidScale (sla DEFAULT_ENGINE_CONFIG)) empty_model fragile_order
                  standard_rider 0))"

section \<open>Verified properties\<close>

subsection \<open>Assignment optimizers\<close>

lemma hungarian_pairs_range:
  "(i, j) \<in> set (hungarian_pairs n m asg) \<Longrightarrow> i < n \<and> j < m"
  by (auto simp: hungarian_pairs_def split: option.splits if_splits)

lemma auction_pairs_range:
  "(i, j) \<in> set (auction_pairs n m asg) \<Longrightarrow> i < n \<and> j < m"
  by (auto simp: auction_pairs_def split: option.splits if_splits)

text \<open>The greedy scan of a row ends on the first rider of minimum cost.\<close>

lemma greedy_fold_min:
  "0 < k \<Longrightarrow> \<exists>b < k. fold (greedy_scan row) [0..<k] (PosInf, 0) = (Fin (row ! b), b)
      \<and> (\<forall>j < k. row ! b \<le> row ! j) \<and> (\<forall>j < b. row ! b < row ! j)"
proof (induction k)
  case 0
  then show ?case by simp
next
  case (Suc k)
  show ?case
  proof (cases "k = 0")
    case True
    then show ?thesis by (simp add: greedy_scan_def)
  next
    case False
    with Suc.IH obtain b where b: "b < k"
      "fold (greedy_scan row) [0..<k] (PosInf, 0) = (Fin (row ! b), b)"
      "\<forall>j < k. row ! b \<le> row ! j" "\<forall>j < b. row ! b < row ! j"
      by auto
    show ?thesis
    proof (cases "row ! k < row ! b")
      case True
      have "fold (greedy_scan row) [0..<Suc k] (PosInf, 0) = (Fin (row ! k), k)"
        using b(2) True by (simp add: greedy_scan_def)
      moreover have "\<forall>j < Suc k. row ! k \<le> row ! j"
        using b(3) True by (auto simp: less_Suc_eq)
      moreover have "\<forall>j < k. row ! k < row ! j"
        using b(3) True by fastforce
      ultimately show ?thesis by blast
    next
      case False
      have "fold (greedy_scan row) [0..<Suc k] (PosInf, 0) = (Fin (row ! b), b)"
        using b(2) False by (simp add: greedy_scan_def)
      moreover have "\<forall>j < Suc k. row ! b \<le> row ! j"
        using b(3) False by (auto simp: less_Suc_eq)
      ultimately show ?thesis using b(1,4) less_Suc_eq by blast
    qed
  qed
qed

lemma greedy_best_min:
  assumes "0 < m"
  shows "snd (greedy_best row m) < m \<and> (\<forall>j < m. row ! snd (greedy_best row m) \<le> row ! j)
     \<and> fst (greedy_best row m) = Fin (row ! snd (greedy_best row m))"
  using greedy_fold_min [OF assms, of row] by (auto simp: greedy_best_def)

text \<open>With all prices 0 the bidding scan of the auction and the greedy scan choose the same
  rider.\<close>

lemma best_scan_greedy_scan:
  assumes "\<forall>k \<in> set ks. k < m" and "fst acc \<noteq> NegInf"
  shows "fold (best_scan row (replicate m (Fin 0))) ks (xneg (fst acc), snd acc)
           = (xneg (fst (fold (greedy_scan row) ks acc)), snd (fold (greedy_scan row) ks acc))
         \<and> fst (fold (greedy_scan row) ks acc) \<noteq> NegInf"
  using assms
proof (induction ks arbitrary: acc)
  case Nil
  then show ?case by simp
next
  case (Cons k ks)
  obtain a j where acc: "acc = (a, j)" by (cases acc)
  have k: "k < m" using Cons.prems(1) by simp
  have a: "a \<noteq> NegInf" using Cons.prems(2) acc by simp
  have bv: "bid_value row (replicate m (Fin 0)) k = Fin (- (row ! k))"
    using k by (simp add: bid_value_def xsub_def)
  have lt: "xless (xneg a) (Fin (- (row ! k))) = xless (Fin (row ! k)) a"
    using a by (cases a) simp_all
  have step: "best_scan row (replicate m (Fin 0)) k (xneg a, j)
      = (xneg (fst (greedy_scan row k (a, j))), snd (greedy_scan row k (a, j)))"
    by (simp add: best_scan_def greedy_scan_def bv lt)
  have ne: "fst (greedy_scan row k (a, j)) \<noteq> NegInf"
    using a by (simp add: greedy_scan_def)
  from Cons.IH [of "greedy_scan row k (a, j)"] Cons.prems(1) ne
  show ?case by (simp add: acc step)
qed

lemma best_rider_greedy:
  "snd (fold (best_scan row (replicate m (Fin 0))) [0..<m] (NegInf, 0)) = snd (greedy_best row m)"
  using best_scan_greedy_scan [of "[0..<m]" m "(PosInf, 0)" row]
  by (simp add: greedy_best_def)

text \<open>The bids of a round: the keys of the Map are distinct, and every entry holds an
  order that has bid, under the rider that the order's bidding scan has chosen.\<close>

lemma map_set_keys: "fst ` set (map_set xs k v) = insert k (fst ` set xs)"
proof (induction xs)
  case Nil
  then show ?case by simp
next
  case (Cons a xs)
  obtain k' v' where a: "a = (k', v')" by (cases a)
  show ?case
  proof (cases "k' = k")
    case True
    then show ?thesis by (simp add: a)
  next
    case False
    then show ?thesis using Cons.IH by (simp add: a insert_commute)
  qed
qed

lemma map_set_distinct: "distinct (map fst xs) \<Longrightarrow> distinct (map fst (map_set xs k v))"
  by (induction xs) (auto simp: map_set_keys)

lemma map_set_entries: "set (map_set xs k v) \<subseteq> insert (k, v) (set xs)"
  by (induction xs) (auto split: if_splits)

lemma place_bid_ok:
  assumes "bids_ok mx prs os bids"
  shows "bids_ok mx prs (insert x os) (place_bid mx prs x bids)"
proof -
  let ?r = "snd (fold (best_scan (costMatrix mx ! x) prs) [0..<length (riders mx)] (NegInf, 0))"
  have old: "bids_ok mx prs (insert x os) bids"
    using assms by (auto simp: bids_ok_def)
  have new: "bids_ok mx prs (insert x os) (map_set bids ?r (x, b))" for b
    unfolding bids_ok_def
  proof (intro conjI ballI)
    show "distinct (map fst (map_set bids ?r (x, b)))"
      using assms by (simp add: bids_ok_def map_set_distinct)
  next
    fix e assume "e \<in> set (map_set bids ?r (x, b))"
    then have "e = (?r, x, b) \<or> e \<in> set bids"
      using map_set_entries [of bids ?r "(x, b)"] by auto
    then show "case e of (r, y, b) \<Rightarrow> y \<in> insert x os
          \<and> r = snd (fold (best_scan (costMatrix mx ! y) prs) [0..<length (riders mx)]
                      (NegInf, 0))"
      using assms by (auto simp: bids_ok_def)
  qed
  show ?thesis
    using old new by (simp add: place_bid_def Let_def split: option.splits prod.splits)
qed

lemma place_bid_fold_ok:
  "bids_ok mx prs os bids \<Longrightarrow> bids_ok mx prs (os \<union> set xs) (fold (place_bid mx prs) xs bids)"
proof (induction xs arbitrary: os bids)
  case Nil
  then show ?case by simp
next
  case (Cons x xs)
  from Cons.IH [OF place_bid_ok [OF Cons.prems, of x]]
  show ?case by simp
qed

text \<open>The awards of a round whose riders hold no order yet: no order goes back to the
  unassigned Set, and an order holds a rider afterwards only if it held it before or an
  entry of \<open>bids\<close> gave it.\<close>

lemma award_fold:
  assumes "distinct (map fst bids)"
    and "\<forall>(r, x, b) \<in> set bids. \<forall>i < n. astate.assigned s ! i \<noteq> Some r"
    and "unassignedOrders s = []"
  shows "unassignedOrders (fold (award n) bids s) = []
     \<and> (\<forall>i < n. \<forall>k. astate.assigned (fold (award n) bids s) ! i = Some k \<longrightarrow>
            astate.assigned s ! i = Some k \<or> (\<exists>b. (k, i, b) \<in> set bids))"
  using assms
proof (induction bids arbitrary: s)
  case Nil
  then show ?case by simp
next
  case (Cons e bids)
  obtain r x b where e: "e = (r, x, b)" by (cases e)
  have none: "find (\<lambda>i. astate.assigned s ! i = Some r) [0..<n] = None"
    using Cons.prems(2) e by (auto simp: find_None_iff)
  let ?s = "award n e s"
  have s': "unassignedOrders ?s = []" "astate.assigned ?s = (astate.assigned s)[x := Some r]"
    using Cons.prems(3) none by (simp_all add: award_def e)
  have asg: "astate.assigned ?s ! i = Some k \<Longrightarrow> astate.assigned s ! i = Some k \<or> (k = r \<and> i = x)" for i k
    by (cases "i = x"; cases "x < length (astate.assigned s)")
      (auto simp: s'(2) list_update_beyond)
  have d: "distinct (map fst bids)" and rn: "r \<notin> fst ` set bids"
    using Cons.prems(1) e by auto
  have free: "\<forall>(r', x', b') \<in> set bids. \<forall>i < n. astate.assigned ?s ! i \<noteq> Some r'"
  proof (clarify)
    fix r' x' b' i
    assume in_bids: "(r', x', b') \<in> set bids" and i: "i < n"
      and eq: "astate.assigned ?s ! i = Some r'"
    from asg [OF eq] show False
    proof
      assume "astate.assigned s ! i = Some r'"
      with Cons.prems(2) in_bids i show False by fastforce
    next
      assume "r' = r \<and> i = x"
      with rn in_bids show False by force
    qed
  qed
  from Cons.IH [OF d free s'(1)]
  have ih: "unassignedOrders (fold (award n) bids ?s) = []"
    "\<forall>i < n. \<forall>k. astate.assigned (fold (award n) bids ?s) ! i = Some k \<longrightarrow>
            astate.assigned ?s ! i = Some k \<or> (\<exists>b. (k, i, b) \<in> set bids)"
    by auto
  show ?case
  proof (intro conjI allI impI)
    show "unassignedOrders (fold (award n) (e # bids) s) = []"
      using ih(1) by simp
  next
    fix i k
    assume i: "i < n" and "astate.assigned (fold (award n) (e # bids) s) ! i = Some k"
    then have "astate.assigned ?s ! i = Some k \<or> (\<exists>b. (k, i, b) \<in> set bids)"
      using ih(2) by simp
    then show "astate.assigned s ! i = Some k \<or> (\<exists>b. (k, i, b) \<in> set (e # bids))"
      using asg [of i k] e by auto
  qed
qed

text \<open>The first round of the auction leaves no order unassigned, so the loop of
  \<open>AuctionOptimizer.optimize\<close> ends after it: an order holds a rider at the end only if
  it won the rider in that round.\<close>

lemma auction_first_round:
  "unassignedOrders (auction_round mx (auction_start mx)) = []
   \<and> (\<forall>i < length (orders mx). \<forall>k.
         astate.assigned (auction_round mx (auction_start mx)) ! i = Some k \<longrightarrow>
         k = snd (greedy_best (costMatrix mx ! i) (length (riders mx)))
         \<and> (\<forall>i' < length (orders mx).
               astate.assigned (auction_round mx (auction_start mx)) ! i' = Some k \<longrightarrow> i' = i))"
proof -
  let ?n = "length (orders mx)" and ?m = "length (riders mx)"
  let ?prs = "replicate ?m (Fin 0)"
  let ?bids = "fold (place_bid mx ?prs) [0..<?n] []"
  let ?s0 = "(auction_start mx)\<lparr>unassignedOrders := []\<rparr>"
  have round: "auction_round mx (auction_start mx) = fold (award ?n) ?bids ?s0"
    by (simp add: auction_round_def auction_start_def Let_def)
  have "bids_ok mx ?prs ({} \<union> set [0..<?n]) ?bids"
    by (rule place_bid_fold_ok) (simp add: bids_ok_def)
  then have d: "distinct (map fst ?bids)"
    and best: "\<And>r x b. (r, x, b) \<in> set ?bids \<Longrightarrow>
        r = snd (greedy_best (costMatrix mx ! x) ?m)"
    by (auto simp: bids_ok_def best_rider_greedy)
  have free: "\<forall>(r, x, b) \<in> set ?bids. \<forall>i < ?n. astate.assigned ?s0 ! i \<noteq> Some r"
    by (simp add: auction_start_def split: prod.splits)
  have "unassignedOrders ?s0 = []" by simp
  from award_fold [OF d free this]
  have u: "unassignedOrders (fold (award ?n) ?bids ?s0) = []"
    and won: "\<And>i k. i < ?n \<Longrightarrow> astate.assigned (fold (award ?n) ?bids ?s0) ! i = Some k \<Longrightarrow>
        \<exists>b. (k, i, b) \<in> set ?bids"
    by (auto simp: auction_start_def)
  show ?thesis
  proof (intro conjI allI impI)
    show "unassignedOrders (auction_round mx (auction_start mx)) = []"
      using u round by simp
  next
    fix i k
    assume "i < ?n" and "astate.assigned (auction_round mx (auction_start mx)) ! i = Some k"
    then obtain b where "(k, i, b) \<in> set ?bids" using won round by auto
    then show "k = snd (greedy_best (costMatrix mx ! i) ?m)" by (rule best)
  next
    fix i k i'
    assume "i < ?n" and "astate.assigned (auction_round mx (auction_start mx)) ! i = Some k"
      and "i' < ?n" and "astate.assigned (auction_round mx (auction_start mx)) ! i' = Some k"
    then obtain b b' where "(k, i, b) \<in> set ?bids" and "(k, i', b') \<in> set ?bids"
      using won round by metis
    with d show "i' = i" by (metis eq_key_imp_eq_value prod.inject)
  qed
qed

lemma auction_final_state:
  "astate.assigned (auction_loop 1000 mx (auction_start mx)) = astate.assigned (auction_start mx)
     \<and> length (orders mx) = 0
   \<or> auction_loop 1000 mx (auction_start mx) = auction_round mx (auction_start mx)"
proof (cases "length (orders mx) = 0")
  case True
  then show ?thesis by (simp add: auction_start_def eval_nat_numeral)
next
  case False
  then have ne: "unassignedOrders (auction_start mx) \<noteq> []"
    by (simp add: auction_start_def)
  have "auction_loop 1000 mx (auction_start mx)
          = auction_loop 999 mx (auction_round mx (auction_start mx))"
    using ne by (simp add: eval_nat_numeral)
  also have "\<dots> = auction_round mx (auction_start mx)"
    using auction_first_round [of mx] by (simp add: eval_nat_numeral)
  finally show ?thesis by simp
qed

lemma auction_pairs_facts:
  assumes "(i, k) \<in> set (pairs (auction_optimize mx))"
  shows "i < length (orders mx) \<and> k < length (riders mx)
     \<and> k = snd (greedy_best (costMatrix mx ! i) (length (riders mx)))"
    and "(i', k) \<in> set (pairs (auction_optimize mx)) \<Longrightarrow> i' = i"
proof -
  let ?s = "auction_loop 1000 mx (auction_start mx)"
  have mem: "(a, c) \<in> set (pairs (auction_optimize mx)) \<longleftrightarrow>
      a < length (orders mx) \<and> c < length (riders mx) \<and> astate.assigned ?s ! a = Some c" for a c
    by (auto simp: auction_optimize_def auction_pairs_def auction_start_def Let_def
        split: option.splits if_splits)
  have fin: "?s = auction_round mx (auction_start mx)"
    using auction_final_state [of mx] assms mem by (auto simp: auction_start_def)
  show "i < length (orders mx) \<and> k < length (riders mx)
     \<and> k = snd (greedy_best (costMatrix mx ! i) (length (riders mx)))"
    using assms auction_first_round [of mx] by (auto simp: mem fin)
  show "(i', k) \<in> set (pairs (auction_optimize mx)) \<Longrightarrow> i' = i"
    using assms auction_first_round [of mx] by (auto simp: mem fin)
qed

lemma auction_pairs_distinct:
  "distinct (map fst (auction_pairs n m asg))"
proof -
  have "map fst (auction_pairs n m asg)
      = filter (\<lambda>i. \<exists>k. asg ! i = Some k \<and> k < m) [0..<n]"
    unfolding auction_pairs_def by (induction n) (auto split: option.splits)
  then show ?thesis by simp
qed

lemma hungarian_pairs_distinct:
  "distinct (map fst (hungarian_pairs n m asg))"
proof -
  have "map fst (hungarian_pairs n m asg)
      = filter (\<lambda>i. \<exists>k. asg ! i = Some k \<and> k < m) [0..<n]"
    unfolding hungarian_pairs_def by (induction n) (auto split: option.splits)
  then show ?thesis by simp
qed

lemma distinct_snd:
  assumes "distinct (map fst ps)"
    and "\<And>i i' k. (i, k) \<in> set ps \<Longrightarrow> (i', k) \<in> set ps \<Longrightarrow> i' = i"
  shows "distinct (map snd ps)"
proof -
  have "distinct ps" using assms(1) by (simp add: distinct_map)
  moreover have "inj_on snd (set ps)"
    using assms(2) by (auto simp: inj_on_def)
  ultimately show ?thesis by (simp add: distinct_map)
qed

text \<open>The result array of \<open>hungarianAlgorithm\<close> is written once per column, so no rider
  index occurs at two orders.\<close>

lemma write_result_fold:
  assumes "\<forall>i < length res. \<forall>k. res ! i = Some k \<longrightarrow> p ! Suc k = Suc i"
    and "\<forall>j \<in> set js. 0 < j"
  shows "length (fold (write_result p) js res) = length res
     \<and> (\<forall>i < length res. \<forall>k. fold (write_result p) js res ! i = Some k \<longrightarrow> p ! Suc k = Suc i)"
  using assms
proof (induction js arbitrary: res)
  case Nil
  then show ?case by simp
next
  case (Cons j js)
  let ?res = "write_result p j res"
  have len: "length ?res = length res" by (simp add: write_result_def)
  have j: "0 < j" using Cons.prems(2) by simp
  have inv: "\<forall>i < length ?res. \<forall>k. ?res ! i = Some k \<longrightarrow> p ! Suc k = Suc i"
  proof (intro allI impI)
    fix i k assume i: "i < length ?res" and eq: "?res ! i = Some k"
    show "p ! Suc k = Suc i"
    proof (cases "p ! j \<noteq> 0 \<and> i = p ! j - 1")
      case True
      then have "?res ! i = Some (j - 1)"
        using i len by (simp add: write_result_def)
      with eq have "k = j - 1" by simp
      with True j show ?thesis by simp
    next
      case False
      then have "?res ! i = res ! i" by (auto simp: write_result_def)
      with eq i len Cons.prems(1) show ?thesis by simp
    qed
  qed
  from Cons.IH [OF inv] Cons.prems(2) len show ?case by simp
qed

lemma hungarian_pairs_facts:
  assumes "hungarian_optimize mx = Some r"
  shows "\<forall>(i, j) \<in> set (pairs r). i < length (orders mx) \<and> j < length (riders mx)"
    and "distinct (map fst (pairs r))"
    and "distinct (map snd (pairs r))"
proof -
  let ?n = "length (orders mx)" and ?m = "length (riders mx)"
  let ?c = "padCostMatrix (costMatrix mx) ?n ?m (max ?n ?m)"
  from assms obtain asg where asg: "hungarianAlgorithm ?c = Some asg"
    and r: "pairs r = hungarian_pairs ?n ?m asg"
    by (auto simp: hungarian_optimize_def Let_def split: option.splits)
  let ?d = "length ?c"
  from asg obtain h :: hstate where
    res: "asg = fold (write_result (hp h)) [1..<?d + 1] (replicate ?d None)"
    by (auto simp: hungarianAlgorithm_def Let_def split: option.splits)
  have d: "?d = max ?n ?m" by (simp add: padCostMatrix_def)
  have inv: "length asg = ?d
     \<and> (\<forall>i < ?d. \<forall>k. asg ! i = Some k \<longrightarrow> hp h ! Suc k = Suc i)"
  proof -
    have init: "\<forall>i < length (replicate ?d (None :: nat option)). \<forall>k.
        replicate ?d None ! i = Some k \<longrightarrow> hp h ! Suc k = Suc i"
      by simp
    have pos: "\<forall>j \<in> set [1..<?d + 1]. 0 < j" by auto
    from write_result_fold [OF init pos] show ?thesis
      unfolding res length_replicate by blast
  qed
  show "\<forall>(i, j) \<in> set (pairs r). i < ?n \<and> j < ?m"
    unfolding r by (auto dest: hungarian_pairs_range)
  show fst: "distinct (map fst (pairs r))"
    unfolding r by (rule hungarian_pairs_distinct)
  show "distinct (map snd (pairs r))"
  proof (rule distinct_snd [OF fst])
    fix i i' k
    assume "(i, k) \<in> set (pairs r)" and "(i', k) \<in> set (pairs r)"
    then have "i < ?n \<and> asg ! i = Some k" and "i' < ?n \<and> asg ! i' = Some k"
      unfolding r by (auto simp: hungarian_pairs_def split: option.splits if_splits)
    then have "hp h ! Suc k = Suc i" and "hp h ! Suc k = Suc i'"
      using inv d by auto
    then show "i' = i" by simp
  qed
qed


text \<open>
  The end-to-end scenario of the specification: on the 3x3 matrix the Hungarian solver
  returns the three pairs 0-0, 1-2, 2-1 with total cost 1.3.
\<close>

lemma hungarian_example_3x3:
  "map_option (\<lambda>r. (pairs r, totalCost r))
     (hungarian_optimize
        \<lparr>orders = [''ord_1'', ''ord_2'', ''ord_3''],
         riders = [''rider_1'', ''rider_2'', ''rider_3''],
         costMatrix = [[5 / 10, 8 / 10, 7 / 10], [6 / 10, 4 / 10, 5 / 10],
                       [9 / 10, 3 / 10, 6 / 10]]\<rparr>)
   = Some ([(0, 0), (1, 2), (2, 1)], Fin (13 / 10))"
  by code_simp

text \<open>
  Claim C1 (the Hungarian solver returns a one-to-one assignment of minimum total cost for
  every matrix on the exact path). The code does not: with two orders and three riders
  the matrix is padded with a row of 10^10, the scan of that row never lowers
  \<open>minv\<close> below its initial 10^10, so \<open>way\<close> keeps the entries of the previous row and
  the second loop moves an order along them. On [[0.1, 0.2, 0.3], [0.1, 0.5, 0.5]] the
  solver returns order 0 to rider 1 and order 1 to rider 2 with total cost 0.7, while
  order 0 to rider 1 and order 1 to rider 0 costs 0.3.
\<close>

theorem C1_hungarian_not_minimal:
  "map_option (\<lambda>r. (pairs r, totalCost r))
     (hungarian_optimize
        \<lparr>orders = [''ord_1'', ''ord_2''], riders = [''rider_1'', ''rider_2'', ''rider_3''],
         costMatrix = [[1 / 10, 2 / 10, 3 / 10], [1 / 10, 5 / 10, 5 / 10]]\<rparr>)
     = Some ([(0, 1), (1, 2)], Fin (7 / 10))
   \<and> sum_pairs
        \<lparr>orders = [''ord_1'', ''ord_2''], riders = [''rider_1'', ''rider_2'', ''rider_3''],
         costMatrix = [[1 / 10, 2 / 10, 3 / 10], [1 / 10, 5 / 10, 5 / 10]]\<rparr>
        [(0, 1), (1, 0)] = 3 / 10"
  by code_simp

text \<open>
  Claim C2 as stated (every solver emits only pairs whose cost is strictly below the
  sentinel 10^10) fails. Orders 0 and 1 can only go to rider 0 and order 2 only to riders
  1 and 2: the Hungarian solver emits order 1 with rider 1 at cost 10^10. On a single
  order with no feasible rider the auction and the greedy solver emit the pair with
  rider 0 at cost 10^10. On two orders and three riders, where order 1 can go to riders 0
  and 1 and the pairs 0-1, 1-0 are both below the sentinel, the Hungarian solver emits
  order 1 with rider 2 at cost 10^10.
\<close>

theorem C2_sentinel_pair_emitted:
  "map_option pairs
     (hungarian_optimize
        \<lparr>orders = [''o0'', ''o1'', ''o2''], riders = [''r0'', ''r1'', ''r2''],
         costMatrix = [[2 / 10, 10 ^ 10, 10 ^ 10], [3 / 10, 10 ^ 10, 10 ^ 10],
                       [10 ^ 10, 1 / 10, 1 / 10]]\<rparr>)
     = Some [(0, 0), (1, 1), (2, 2)]
   \<and> \<not> [[2 / 10, 10 ^ 10, 10 ^ 10], [3 / 10, 10 ^ 10, 10 ^ 10],
         [10 ^ 10, 1 / 10, 1 / 10]] ! 1 ! 1 < sentinel
   \<and> pairs (auction_optimize
        \<lparr>orders = [''o0''], riders = [''r0'', ''r1''], costMatrix = [[10 ^ 10, 10 ^ 10]]\<rparr>)
     = [(0, 0)]
   \<and> pairs (greedy_optimize
        \<lparr>orders = [''o0''], riders = [''r0'', ''r1''], costMatrix = [[10 ^ 10, 10 ^ 10]]\<rparr>)
     = [(0, 0)]
   \<and> \<not> [[10 ^ 10, 10 ^ 10]] ! 0 ! 0 < sentinel
   \<and> map_option pairs
       (hungarian_optimize
          \<lparr>orders = [''o0'', ''o1''], riders = [''r0'', ''r1'', ''r2''],
           costMatrix = [[1 / 10, 2 / 10, 3 / 10], [1 / 10, 5 / 10, 10 ^ 10]]\<rparr>)
     = Some [(0, 1), (1, 2)]
   \<and> \<not> [[1 / 10, 2 / 10, 3 / 10], [1 / 10, 5 / 10, 10 ^ 10]] ! 1 ! 2 < sentinel
   \<and> [[1 / 10, 2 / 10, 3 / 10], [1 / 10, 5 / 10, 10 ^ 10]] ! 1 ! 0 < sentinel"
proof (intro conjI)
  show "map_option pairs
     (hungarian_optimize
        \<lparr>orders = [''o0'', ''o1'', ''o2''], riders = [''r0'', ''r1'', ''r2''],
         costMatrix = [[2 / 10, 10 ^ 10, 10 ^ 10], [3 / 10, 10 ^ 10, 10 ^ 10],
                       [10 ^ 10, 1 / 10, 1 / 10]]\<rparr>)
     = Some [(0, 0), (1, 1), (2, 2)]"
    by code_simp
  show "pairs (auction_optimize
        \<lparr>orders = [''o0''], riders = [''r0'', ''r1''], costMatrix = [[10 ^ 10, 10 ^ 10]]\<rparr>)
     = [(0, 0)]"
    by code_simp
  show "pairs (greedy_optimize
        \<lparr>orders = [''o0''], riders = [''r0'', ''r1''], costMatrix = [[10 ^ 10, 10 ^ 10]]\<rparr>)
     = [(0, 0)]"
    by code_simp
  show "map_option pairs
       (hungarian_optimize
          \<lparr>orders = [''o0'', ''o1''], riders = [''r0'', ''r1'', ''r2''],
           costMatrix = [[1 / 10, 2 / 10, 3 / 10], [1 / 10, 5 / 10, 10 ^ 10]]\<rparr>)
     = Some [(0, 1), (1, 2)]"
    by code_simp
qed (simp_all add: sentinel_def)

lemma greedy_best_first:
  assumes "0 < m"
  shows "\<forall>j < snd (greedy_best row m). row ! snd (greedy_best row m) < row ! j"
  using greedy_fold_min [OF assms, of row] by (auto simp: greedy_best_def)

text \<open>
  Claim C2 as amended: on a well-formed matrix with at least one rider,
  the greedy solver emits exactly one pair for every order, in order;
  every pair that the greedy solver or the auction emits names an order and a rider of the
  matrix, the rider being the first one of minimum cost in the order's row, so that the
  pair is strictly below the sentinel exactly when the row has an entry strictly below
  the sentinel;
  every pair of the auction is a pair of the greedy solver, and no order and no rider
  occurs in two pairs of the auction;
  the pairs that the Hungarian solver emits, when it returns, name orders and riders of the
  matrix, and no order and no rider occurs in two of them.
\<close>

theorem C2_solver_pairs:
  assumes "wf_matrix mx" and "0 < length (riders mx)"
  shows "map fst (pairs (greedy_optimize mx)) = [0..<length (orders mx)]
       \<and> (\<forall>(i, j) \<in> set (pairs (greedy_optimize mx)).
            i < length (orders mx) \<and> j < length (riders mx)
            \<and> (\<forall>k < length (riders mx). costMatrix mx ! i ! j \<le> costMatrix mx ! i ! k)
            \<and> (\<forall>k < j. costMatrix mx ! i ! j < costMatrix mx ! i ! k)
            \<and> (costMatrix mx ! i ! j < sentinel
                 \<longleftrightarrow> (\<exists>k < length (riders mx). costMatrix mx ! i ! k < sentinel)))
       \<and> (\<forall>(i, j) \<in> set (pairs (auction_optimize mx)).
            i < length (orders mx) \<and> j < length (riders mx)
            \<and> (\<forall>k < length (riders mx). costMatrix mx ! i ! j \<le> costMatrix mx ! i ! k)
            \<and> (\<forall>k < j. costMatrix mx ! i ! j < costMatrix mx ! i ! k)
            \<and> (costMatrix mx ! i ! j < sentinel
                 \<longleftrightarrow> (\<exists>k < length (riders mx). costMatrix mx ! i ! k < sentinel)))
       \<and> set (pairs (auction_optimize mx)) \<subseteq> set (pairs (greedy_optimize mx))
       \<and> distinct (map fst (pairs (auction_optimize mx)))
       \<and> distinct (map snd (pairs (auction_optimize mx)))
       \<and> (\<forall>r. hungarian_optimize mx = Some r \<longrightarrow>
            (\<forall>(i, j) \<in> set (pairs r). i < length (orders mx) \<and> j < length (riders mx))
            \<and> distinct (map fst (pairs r)) \<and> distinct (map snd (pairs r)))"
proof -
  let ?n = "length (orders mx)" and ?m = "length (riders mx)"
  let ?c = "costMatrix mx"
  have row: "j < ?m \<and> (\<forall>k < ?m. ?c ! i ! j \<le> ?c ! i ! k) \<and> (\<forall>k < j. ?c ! i ! j < ?c ! i ! k)
      \<and> (?c ! i ! j < sentinel \<longleftrightarrow> (\<exists>k < ?m. ?c ! i ! k < sentinel))"
    if j: "j = snd (greedy_best (?c ! i) ?m)" for i j
  proof -
    from greedy_best_min [OF assms(2), of "?c ! i"] greedy_best_first [OF assms(2), of "?c ! i"] j
    have jm: "j < ?m" and mn: "\<forall>k < ?m. ?c ! i ! j \<le> ?c ! i ! k"
      and fs: "\<forall>k < j. ?c ! i ! j < ?c ! i ! k"
      by auto
    have "?c ! i ! j < sentinel \<longleftrightarrow> (\<exists>k < ?m. ?c ! i ! k < sentinel)"
      using jm mn by (meson le_less_trans)
    with jm mn fs show ?thesis by blast
  qed
  have g1: "map fst (pairs (greedy_optimize mx)) = [0..<?n]"
    by (simp add: greedy_optimize_def greedy_pairs_def comp_def)
  have g2: "\<forall>(i, j) \<in> set (pairs (greedy_optimize mx)).
            i < ?n \<and> j < ?m
            \<and> (\<forall>k < ?m. ?c ! i ! j \<le> ?c ! i ! k)
            \<and> (\<forall>k < j. ?c ! i ! j < ?c ! i ! k)
            \<and> (?c ! i ! j < sentinel \<longleftrightarrow> (\<exists>k < ?m. ?c ! i ! k < sentinel))"
  proof (clarify)
    fix i j assume "(i, j) \<in> set (pairs (greedy_optimize mx))"
    then have i: "i < ?n" and j: "j = snd (greedy_best (?c ! i) ?m)"
      by (auto simp: greedy_optimize_def greedy_pairs_def)
    from i row [OF j] show "i < ?n \<and> j < ?m
            \<and> (\<forall>k < ?m. ?c ! i ! j \<le> ?c ! i ! k)
            \<and> (\<forall>k < j. ?c ! i ! j < ?c ! i ! k)
            \<and> (?c ! i ! j < sentinel \<longleftrightarrow> (\<exists>k < ?m. ?c ! i ! k < sentinel))"
      by blast
  qed
  have a1: "\<forall>(i, j) \<in> set (pairs (auction_optimize mx)).
            i < ?n \<and> j < ?m
            \<and> (\<forall>k < ?m. ?c ! i ! j \<le> ?c ! i ! k)
            \<and> (\<forall>k < j. ?c ! i ! j < ?c ! i ! k)
            \<and> (?c ! i ! j < sentinel \<longleftrightarrow> (\<exists>k < ?m. ?c ! i ! k < sentinel))"
  proof (clarify)
    fix i j assume "(i, j) \<in> set (pairs (auction_optimize mx))"
    from auction_pairs_facts(1) [OF this]
    have i: "i < ?n" and j: "j = snd (greedy_best (?c ! i) ?m)"
      by auto
    from i row [OF j] show "i < ?n \<and> j < ?m
            \<and> (\<forall>k < ?m. ?c ! i ! j \<le> ?c ! i ! k)
            \<and> (\<forall>k < j. ?c ! i ! j < ?c ! i ! k)
            \<and> (?c ! i ! j < sentinel \<longleftrightarrow> (\<exists>k < ?m. ?c ! i ! k < sentinel))"
      by blast
  qed
  have a2: "set (pairs (auction_optimize mx)) \<subseteq> set (pairs (greedy_optimize mx))"
  proof
    fix e assume e: "e \<in> set (pairs (auction_optimize mx))"
    obtain i j where ij: "e = (i, j)" by (cases e)
    from auction_pairs_facts(1) [of i j mx] e ij
    have "i < ?n" and "j = snd (greedy_best (?c ! i) ?m)"
      by auto
    then show "e \<in> set (pairs (greedy_optimize mx))"
      by (auto simp: ij greedy_optimize_def greedy_pairs_def)
  qed
  have a3: "distinct (map fst (pairs (auction_optimize mx)))"
    by (simp add: auction_optimize_def Let_def auction_pairs_distinct)
  have a4: "distinct (map snd (pairs (auction_optimize mx)))"
    by (rule distinct_snd [OF a3]) (rule auction_pairs_facts(2))
  have h: "\<forall>r. hungarian_optimize mx = Some r \<longrightarrow>
            (\<forall>(i, j) \<in> set (pairs r). i < ?n \<and> j < ?m)
            \<and> distinct (map fst (pairs r)) \<and> distinct (map snd (pairs r))"
    using hungarian_pairs_facts by blast
  from g1 g2 a1 a2 a3 a4 h show ?thesis by blast
qed

text \<open>C2 on a matrix whose first order has a feasible rider and whose second has none:
  the greedy solver and the auction emit order 0 with rider 1 below the sentinel and order
  1 with rider 0 at the sentinel, and the Hungarian solver returns.\<close>

theorem C2_solver_pairs_witness:
  "wf_matrix \<lparr>orders = [''o0'', ''o1''], riders = [''r0'', ''r1''],
              costMatrix = [[4 / 10, 2 / 10], [10 ^ 10, 10 ^ 10]]\<rparr>
   \<and> pairs (greedy_optimize
          \<lparr>orders = [''o0'', ''o1''], riders = [''r0'', ''r1''],
           costMatrix = [[4 / 10, 2 / 10], [10 ^ 10, 10 ^ 10]]\<rparr>) = [(0, 1), (1, 0)]
   \<and> pairs (auction_optimize
          \<lparr>orders = [''o0'', ''o1''], riders = [''r0'', ''r1''],
           costMatrix = [[4 / 10, 2 / 10], [10 ^ 10, 10 ^ 10]]\<rparr>) = [(0, 1), (1, 0)]
   \<and> map_option pairs (hungarian_optimize
          \<lparr>orders = [''o0'', ''o1''], riders = [''r0'', ''r1''],
           costMatrix = [[4 / 10, 2 / 10], [10 ^ 10, 10 ^ 10]]\<rparr>) = Some [(0, 1), (1, 0)]
   \<and> [[4 / 10, 2 / 10], [10 ^ 10, 10 ^ 10]] ! 0 ! 1 < sentinel
   \<and> (\<nexists>k. k < 2 \<and> [[4 / 10, 2 / 10], [10 ^ 10 :: real, 10 ^ 10]] ! 1 ! k < sentinel)"
proof -
  let ?mx = "\<lparr>orders = [''o0'', ''o1''], riders = [''r0'', ''r1''],
              costMatrix = [[4 / 10, 2 / 10], [10 ^ 10, 10 ^ 10]]\<rparr>"
  have wf: "wf_matrix ?mx" by (simp add: wf_matrix_def)
  have pos: "0 < length (riders ?mx)" by simp
  have ps: "pairs (greedy_optimize ?mx) = [(0, 1), (1, 0)]" by code_simp
  have pa: "pairs (auction_optimize ?mx) = [(0, 1), (1, 0)]" by code_simp
  have ph: "map_option pairs (hungarian_optimize ?mx) = Some [(0, 1), (1, 0)]" by code_simp
  from C2_solver_pairs [OF wf pos]
  have g: "\<forall>(i, j) \<in> set (pairs (greedy_optimize ?mx)).
            (costMatrix ?mx ! i ! j < sentinel
                 \<longleftrightarrow> (\<exists>k < length (riders ?mx). costMatrix ?mx ! i ! k < sentinel))"
    by blast
  have a: "costMatrix ?mx ! 0 ! 1 < sentinel" by (simp add: sentinel_def)
  have "\<not> costMatrix ?mx ! 1 ! 0 < sentinel" by (simp add: sentinel_def)
  with g ps have b: "\<not> (\<exists>k < length (riders ?mx). costMatrix ?mx ! 1 ! k < sentinel)"
    by auto
  show ?thesis using wf ps pa ph a b by simp
qed

subsection \<open>Geo primitives\<close>

lemma haversineDistance_same: "haversineDistance l l = 0"
  by (simp add: haversineDistance_def atan2_def)

subsection \<open>Candidate generator\<close>

lemma fragile_order_fields:
  "orderId fragile_order = ''fragile_order''"
  "status fragile_order = pending_assignment"
  "slaDeadline fragile_order = 3600000"
  "pickupLocation (pickup fragile_order) = depot"
  "deliveryLocation (delivery fragile_order) = depot"
  by (simp_all add: fragile_order_def)

lemma standard_rider_fields:
  "riderId standard_rider = ''rider_1''"
  "riderLocation standard_rider = depot"
  "currentAssignments standard_rider = []"
  "currentRoute standard_rider = []"
  by (simp_all add: standard_rider_def)

lemmas hard_defs = runHardConstraints_def capacityCheck_def vehicleCompatibilityCheck_def
  shiftTimeCheck_def fatigueCheck_def slaFeasibilityCheck_def riderStatusCheck_def
  estimateTravelTime_def haversineDistance_same new_Date_def DEFAULT_FATIGUE_CONFIG_def

lemma fragile_order_passes:
  "runHardConstraints DEFAULT_FATIGUE_CONFIG fragile_order standard_rider 0
     = \<lparr>passed = True, failedConstraints = []\<rparr>"
  by (simp add: hard_defs fragile_order_def standard_rider_def)

lemma fragile_order_candidates:
  "generateCandidates DEFAULT_CANDIDATE_GENERATION_CONFIG DEFAULT_FATIGUE_CONFIG
        [(''rider_1'', depot)] fragile_order [(''rider_1'', standard_rider)] 0
     = \<lparr>cgOrderId = ''fragile_order'', candidateRiderIds = [''rider_1''], failureReason = None\<rparr>"
  by (simp add: generateCandidates_def geographicFilter_def findRidersWithinRadius_def
      hard_filter_def fragile_order_passes DEFAULT_CANDIDATE_GENERATION_CONFIG_def
      haversineDistance_same fragile_order_fields)

text \<open>The vehicle check never reads the \<open>fragile\<close> and \<open>requiresColdChain\<close> flags: every
  value of \<open>vehicleRequirement\<close> returns before the tests on them.\<close>

lemma vehicleCompatibilityCheck_ignores_flags:
  "vehicleCompatibilityCheck
     (order\<lparr>payload := (payload order)\<lparr>fragile := f, requiresColdChain := c\<rparr>\<rparr>) rider
   = vehicleCompatibilityCheck order rider"
  by (cases "vehicleRequirement (payload order)") (simp_all add: vehicleCompatibilityCheck_def)

text \<open>
  Claim C3 (a fragile payload on a vehicle without the fragile capability is recorded as
  \<open>vehicle_incompatible\<close> for every \<open>vehicleRequirement\<close>, \<open>any\<close> included). The code
  returns from \<open>vehicleCompatibilityCheck\<close> before it reaches the fragile and cold-chain
  tests: the fragile order with requirement \<open>any\<close> passes the check against a rider
  whose vehicle has only the standard capability, no failure is recorded, and
  \<open>generateCandidates\<close> returns the rider as a candidate.
\<close>

theorem C3_fragile_any_not_recorded:
  "fragile (payload fragile_order)
   \<and> vehicleRequirement (payload fragile_order) = req_any
   \<and> cap_fragile \<notin> set (capabilities (vehicle standard_rider))
   \<and> vehicleCompatibilityCheck fragile_order standard_rider
   \<and> failedConstraints (runHardConstraints DEFAULT_FATIGUE_CONFIG fragile_order standard_rider 0)
       = []
   \<and> candidateRiderIds
        (generateCandidates DEFAULT_CANDIDATE_GENERATION_CONFIG DEFAULT_FATIGUE_CONFIG
           [(''rider_1'', depot)] fragile_order [(''rider_1'', standard_rider)] 0)
       = [''rider_1'']"
  by (simp add: fragile_order_passes fragile_order_candidates)
     (simp add: fragile_order_def standard_rider_def vehicleCompatibilityCheck_def)

subsection \<open>Batch optimizer\<close>

lemma insertion_scan_some:
  "\<exists>c b pos. insertion_scan os route orderIdx insertPos (PosInf, x, y) = (Fin c, Some b, pos)"
  by (simp add: insertion_scan_def Let_def)

lemma insertion_scan_keeps:
  "\<exists>c' b' pos'. insertion_scan os route orderIdx insertPos (Fin c, Some b, pos)
      = (Fin c', Some b', pos')"
  by (simp add: insertion_scan_def Let_def)

lemma insertion_scan_fold_keeps:
  "\<exists>c' b' pos'. fold (insertion_scan os route orderIdx) ps (Fin c, Some b, pos)
      = (Fin c', Some b', pos')"
proof (induction ps arbitrary: c b pos)
  case Nil
  then show ?case by simp
next
  case (Cons p ps)
  obtain c1 b1 pos1 where
    "insertion_scan os route orderIdx p (Fin c, Some b, pos) = (Fin c1, Some b1, pos1)"
    using insertion_scan_keeps by blast
  then show ?case using Cons.IH [of c1 b1 pos1] by simp
qed

lemma best_fold_keeps:
  "\<exists>c' b' pos'. fold (\<lambda>orderIdx. fold (insertion_scan os route orderIdx) ps) remaining
       (Fin c, Some b, pos) = (Fin c', Some b', pos')"
proof (induction remaining arbitrary: c b pos)
  case Nil
  then show ?case by simp
next
  case (Cons r rs)
  obtain c1 b1 pos1 where
    "fold (insertion_scan os route r) ps (Fin c, Some b, pos) = (Fin c1, Some b1, pos1)"
    using insertion_scan_fold_keeps by blast
  then show ?case using Cons.IH [of c1 b1 pos1] by simp
qed

text \<open>A pass over a non-empty Set always finds an order: every insertion cost is finite,
  so the first one is below \<open>Infinity\<close>.\<close>

lemma best_insertion_some:
  assumes "remaining \<noteq> []"
  shows "\<exists>c b pos. best_insertion os remaining route = (Fin c, Some b, pos)"
proof -
  obtain r rs where rem: "remaining = r # rs" using assms by (cases remaining) auto
  let ?ps = "[0..<length (routeOrders route) + 1]"
  have ps: "?ps = 0 # [1..<length (routeOrders route) + 1]"
    by (simp add: upt_rec)
  obtain c0 b0 pos0 where
    "insertion_scan os route r 0 (PosInf, None, 0) = (Fin c0, Some b0, pos0)"
    using insertion_scan_some by blast
  then have "\<exists>c1 b1 pos1.
      fold (insertion_scan os route r) ?ps (PosInf, None, 0) = (Fin c1, Some b1, pos1)"
    using insertion_scan_fold_keeps
      [of os route r "[1..<length (routeOrders route) + 1]" c0 b0 pos0]
    by (subst ps) (simp del: upt_Suc)
  then obtain c1 b1 pos1 where
    "fold (insertion_scan os route r) ?ps (PosInf, None, 0) = (Fin c1, Some b1, pos1)"
    by blast
  then show ?thesis
    using best_fold_keeps [of os route ?ps rs c1 b1 pos1]
    by (simp add: best_insertion_def rem del: upt_Suc)
qed

lemma insertion_loop_length:
  "distinct remaining \<Longrightarrow>
   length (routeOrders (insertion_loop os remaining route))
     = length (routeOrders route) + length remaining"
proof (induction os remaining route rule: insertion_loop.induct)
  case (1 os remaining route)
  show ?case
  proof (cases "remaining = []")
    case True
    then show ?thesis by simp
  next
    case False
    then obtain c b pos where best: "best_insertion os remaining route = (Fin c, Some b, pos)"
      using best_insertion_some by blast
    then have mem: "b \<in> set remaining" by (rule best_insertion_mem)
    have len: "length (removeAll b remaining) = length remaining - 1"
      using mem "1.prems" by (simp add: distinct_remove1_removeAll [symmetric] length_remove1)
    have "length (routeOrders (insertion_loop os (removeAll b remaining)
                                 (insert_order os route b pos)))
            = length (routeOrders (insert_order os route b pos)) + length (removeAll b remaining)"
      using "1.IH" [OF False best [symmetric] refl refl] "1.prems" by (simp add: distinct_removeAll)
    moreover have "length (routeOrders (insert_order os route b pos))
                     = length (routeOrders route) + 1"
      by (simp add: insert_order_def Let_def)
    moreover have "0 < length remaining" using False by simp
    ultimately show ?thesis using False best len
      by (subst insertion_loop.simps) simp
  qed
qed

lemma two_opt_pass_length:
  assumes "two_opt_pass ids = Some ids'"
  shows "length ids' = length ids"
proof -
  let ?ps = "concat (map (\<lambda>i. map (\<lambda>j. (i, j)) [i + 2..<length ids]) [0..<length ids - 1])"
  from assms obtain i j rest where ps: "?ps = (i, j) # rest"
    and ids': "ids' = take (i + 1) ids @ rev (take (j - i) (drop (i + 1) ids)) @ drop (j + 1) ids"
    by (auto simp: two_opt_pass_def split: list.splits)
  have "(i, j) \<in> set ?ps" by (subst ps) simp
  then have "i + 2 \<le> j" "j < length ids" by auto
  then show ?thesis by (simp add: ids')
qed

lemma two_opt_loop_length: "length (two_opt_loop k ids) = length ids"
proof (induction k arbitrary: ids)
  case 0
  then show ?case by simp
next
  case (Suc k)
  then show ?case by (auto split: option.splits dest: two_opt_pass_length)
qed

lemma nearest_fold_range:
  "snd (fold (nearest_scan location os) ks (c, k)) \<in> insert k (set ks)"
proof (induction ks arbitrary: c k)
  case Nil
  then show ?case by simp
next
  case (Cons a ks)
  obtain c' k' where step: "nearest_scan location os a (c, k) = (c', k')"
    by (cases "nearest_scan location os a (c, k)") auto
  then have "k' = k \<or> k' = a"
    by (auto simp: nearest_scan_def Let_def split: if_splits)
  then show ?case using Cons.IH [of c' k'] step by auto
qed

text \<open>Whatever \<open>validateBatchConstraints\<close> says, the returned sequence holds as many orders
  as the batch.\<close>

lemma optimizeBatch_keeps_all:
  "length (ordersSequence (optimizeBatch config rider os)) = length os"
proof (cases "os = []")
  case True
  then show ?thesis by (simp add: optimizeBatch_def)
next
  case False
  have "findNearestOrder (riderLocation rider) os < length os"
    using False nearest_fold_range [of "riderLocation rider" os "[0..<length os]" PosInf 0]
    by (auto simp: findNearestOrder_def)
  then have "length (removeAll (findNearestOrder (riderLocation rider) os) [0..<length os])
               = length os - 1"
    by (simp add: distinct_remove1_removeAll [symmetric] length_remove1)
  moreover have "0 < length os" using False by simp
  ultimately have "length (routeOrders (cheapestInsertionConstruction rider os)) = length os"
    by (simp add: cheapestInsertionConstruction_def Let_def insertion_loop_length
        distinct_removeAll del: insertion_loop.simps)
  then show ?thesis using False
    by (simp add: optimizeBatch_def Let_def twoOptImprovement_def two_opt_loop_length)
qed

text \<open>
  Claim C4 (\<open>optimizeBatch\<close> rejects a batch above \<open>maxBatchSize\<close> or above the vehicle
  capacity, so a returned route stays within both). The code computes
  \<open>validateBatchConstraints\<close> and ignores it: for the bike (limit 3 orders, 5 kg) and four
  orders of 2 kg the validation is false and the returned sequence holds all four
  orders.
\<close>

theorem C4_oversized_batch_not_rejected:
  "length four_orders = 4
   \<and> maxBatchSize DEFAULT_BATCHING_CONFIG (vehicleType (vehicle standard_rider)) = 3
   \<and> fold (\<lambda>order t. t + weightKg (payload order)) four_orders 0 = 8
   \<and> maxWeightKg (vehicle standard_rider) = 5
   \<and> \<not> validateBatchConstraints DEFAULT_BATCHING_CONFIG standard_rider four_orders
   \<and> length (ordersSequence (optimizeBatch DEFAULT_BATCHING_CONFIG standard_rider four_orders))
       = 4"
proof -
  have "length (ordersSequence (optimizeBatch DEFAULT_BATCHING_CONFIG standard_rider four_orders))
          = length four_orders"
    by (rule optimizeBatch_keeps_all)
  then show ?thesis
    by (simp add: four_orders_def validateBatchConstraints_def DEFAULT_BATCHING_CONFIG_def
        standard_rider_def fragile_order_def)
qed

subsection \<open>Scorer\<close>

text \<open>
  Claim C10: when the rider's \<open>zoneFamiliarityScores\<close> has no entry for the order's
  delivery zone, or the entry is 0, the affinity factor is
  -(0.5 * 0.5 + 0.3 * avgDeliverySuccessRate + 0.2 * max(0, avgSpeedMultiplier - 0.9)),
  both as computed by \<open>calculateAffinityCost\<close> and as reported in the breakdown of
  \<open>scoreAssignment\<close>.
\<close>

theorem C10_affinity_default_familiarity:
  assumes "zoneFamiliarityScores (performance rider)
             (getDeliveryZone (deliveryLocation (delivery order))) = None
           \<or> zoneFamiliarityScores (performance rider)
               (getDeliveryZone (deliveryLocation (delivery order))) = Some 0"
  shows "calculateAffinityCost order rider
           = - (5 / 10 * (5 / 10) + 3 / 10 * avgDeliverySuccessRate (performance rider)
                + 2 / 10 * max 0 (avgSpeedMultiplier (performance rider) - 9 / 10))
         \<and> affinityCost (costBreakdown (fst (scoreAssignment env config ws scale st order rider now)))
           = - (5 / 10 * (5 / 10) + 3 / 10 * avgDeliverySuccessRate (performance rider)
                + 2 / 10 * max 0 (avgSpeedMultiplier (performance rider) - 9 / 10))"
proof -
  have a: "calculateAffinityCost order rider
           = - (5 / 10 * (5 / 10) + 3 / 10 * avgDeliverySuccessRate (performance rider)
                + 2 / 10 * max 0 (avgSpeedMultiplier (performance rider) - 9 / 10))"
    using assms by (auto simp: calculateAffinityCost_def Let_def)
  have "affinityCost (costBreakdown (fst (scoreAssignment env config ws scale st order rider now)))
          = calculateAffinityCost order rider"
    by (simp add: scoreAssignment_def Let_def split: prod.splits)
  with a show ?thesis by simp
qed

lemma depot_zone: "getDeliveryZone depot = ''zone_25_155''"
  by code_simp

text \<open>The two cases of C10 on the example order (zone \<open>zone_25_155\<close>): a rider with no
  entry, and a rider whose entry is 0; both get -0.57.\<close>

theorem C10_affinity_default_familiarity_witness:
  "zoneFamiliarityScores (performance standard_rider)
     (getDeliveryZone (deliveryLocation (delivery fragile_order))) = None
   \<and> calculateAffinityCost fragile_order standard_rider = - (57 / 100)
   \<and> zoneFamiliarityScores
       (performance (standard_rider\<lparr>performance :=
          (performance standard_rider)\<lparr>zoneFamiliarityScores := [''zone_25_155'' \<mapsto> 0]\<rparr>\<rparr>))
       (getDeliveryZone (deliveryLocation (delivery fragile_order))) = Some 0
   \<and> calculateAffinityCost fragile_order
       (standard_rider\<lparr>performance :=
          (performance standard_rider)\<lparr>zoneFamiliarityScores := [''zone_25_155'' \<mapsto> 0]\<rparr>\<rparr>)
       = - (57 / 100)"
proof -
  let ?r = "standard_rider\<lparr>performance :=
          (performance standard_rider)\<lparr>zoneFamiliarityScores := [''zone_25_155'' \<mapsto> 0]\<rparr>\<rparr>"
  have n: "zoneFamiliarityScores (performance standard_rider)
     (getDeliveryZone (deliveryLocation (delivery fragile_order))) = None"
    by (simp add: standard_rider_def)
  have z: "zoneFamiliarityScores (performance ?r)
       (getDeliveryZone (deliveryLocation (delivery fragile_order))) = Some 0"
    by (simp add: fragile_order_fields depot_zone)
  have "calculateAffinityCost fragile_order standard_rider = - (57 / 100)"
    using C10_affinity_default_familiarity [where rider = standard_rider and order = fragile_order]
      n by (simp add: standard_rider_def)
  moreover have "calculateAffinityCost fragile_order ?r = - (57 / 100)"
    using C10_affinity_default_familiarity [where rider = ?r and order = fragile_order]
      z by (simp add: standard_rider_def)
  ultimately show ?thesis using n z by blast
qed

subsection \<open>ETA model\<close>

text \<open>
  Claim C6 as stated (\<open>serviceTimeMinutes\<close> is 0 for every \<open>buildingType\<close> that is not a
  configured key) fails: for the building type \<open>office_delivery\<close>, which the default
  table does not hold, a fresh estimate reports 3 minutes.
\<close>

theorem C6_unknown_building_type_is_three:
  "serviceTimeDefaults DEFAULT_ETA_CONFIG ''office_delivery'' = None
   \<and> serviceTimeMinutes
        (fst (estimateETA noon_env DEFAULT_ETA_CONFIG empty_model depot depot 0 None
                (Some ''office_delivery''))) = Num 3"
  by (simp add: estimateETA_def cached_estimate_def empty_model_def service_time_def
      DEFAULT_ETA_CONFIG_def Object_prototype_names_def Let_def split: prod.splits)

text \<open>
  Claim C6 as amended: when the cache holds a live entry for the key, \<open>estimateETA\<close>
  returns that entry unchanged; otherwise \<open>serviceTimeMinutes\<close> is 0 when
  \<open>buildingType\<close> is absent or the empty string; the configured value when
  \<open>buildingType\<close> is a configured key whose value is not 0; 3 when \<open>buildingType\<close> is a
  configured key whose value is 0, or a non-empty string that is neither a configured key
  nor the name of a member that a plain object inherits from \<open>Object.prototype\<close>; and, when
  \<open>buildingType\<close> is such a name and not a configured key, the inherited member, which is
  not a number.
\<close>

theorem C6_service_time:
  "(\<forall>est. cached_estimate env config st (generateCacheKey origin destination departure) = Some est
       \<longrightarrow> fst (estimateETA env config st origin destination departure rid buildingType) = est)
   \<and> (cached_estimate env config st (generateCacheKey origin destination departure) = None \<longrightarrow>
        (buildingType = None \<or> buildingType = Some [] \<longrightarrow>
           serviceTimeMinutes
             (fst (estimateETA env config st origin destination departure rid buildingType))
             = Num 0)
        \<and> (\<forall>bt v. buildingType = Some bt \<and> bt \<noteq> [] \<and> serviceTimeDefaults config bt = Some v
                   \<and> v \<noteq> 0 \<longrightarrow>
           serviceTimeMinutes
             (fst (estimateETA env config st origin destination departure rid buildingType))
             = Num v)
        \<and> (\<forall>bt. buildingType = Some bt \<and> bt \<noteq> []
                 \<and> (serviceTimeDefaults config bt = Some 0
                      \<or> serviceTimeDefaults config bt = None
                          \<and> bt \<notin> set Object_prototype_names) \<longrightarrow>
           serviceTimeMinutes
             (fst (estimateETA env config st origin destination departure rid buildingType))
             = Num 3)
        \<and> (\<forall>bt. buildingType = Some bt \<and> serviceTimeDefaults config bt = None
                 \<and> bt \<in> set Object_prototype_names \<longrightarrow>
           serviceTimeMinutes
             (fst (estimateETA env config st origin destination departure rid buildingType))
             = NonNumeric))"
proof (intro conjI allI impI)
  fix est
  assume "cached_estimate env config st (generateCacheKey origin destination departure) = Some est"
  then show "fst (estimateETA env config st origin destination departure rid buildingType) = est"
    by (simp add: estimateETA_def)
next
  assume miss: "cached_estimate env config st (generateCacheKey origin destination departure) = None"
  have stm: "serviceTimeMinutes
      (fst (estimateETA env config st origin destination departure rid buildingType))
      = service_time config buildingType"
    using miss by (simp add: estimateETA_def Let_def split: prod.splits)
  {
    assume "buildingType = None \<or> buildingType = Some []"
    then show "serviceTimeMinutes
        (fst (estimateETA env config st origin destination departure rid buildingType)) = Num 0"
      using stm by (auto simp: service_time_def)
  next
    fix bt v
    assume "buildingType = Some bt \<and> bt \<noteq> [] \<and> serviceTimeDefaults config bt = Some v \<and> v \<noteq> 0"
    then show "serviceTimeMinutes
        (fst (estimateETA env config st origin destination departure rid buildingType)) = Num v"
      using stm by (auto simp: service_time_def)
  next
    fix bt
    assume "buildingType = Some bt \<and> bt \<noteq> []
              \<and> (serviceTimeDefaults config bt = Some 0
                   \<or> serviceTimeDefaults config bt = None \<and> bt \<notin> set Object_prototype_names)"
    then show "serviceTimeMinutes
        (fst (estimateETA env config st origin destination departure rid buildingType)) = Num 3"
      using stm by (auto simp: service_time_def)
  next
    fix bt
    assume "buildingType = Some bt \<and> serviceTimeDefaults config bt = None
              \<and> bt \<in> set Object_prototype_names"
    then show "serviceTimeMinutes
        (fst (estimateETA env config st origin destination departure rid buildingType))
        = NonNumeric"
      using stm by (auto simp: service_time_def Object_prototype_names_def)
  }
qed

text \<open>C6 on an empty cache with the default table: \<open>apartment_delivery\<close> gives 4, no
  building type gives 0, the unknown \<open>lobby\<close>, which is not the name of an inherited
  member, gives 3, and \<open>constructor\<close> gives a value that is not a number.\<close>

theorem C6_service_time_witness:
  "cached_estimate noon_env DEFAULT_ETA_CONFIG empty_model (generateCacheKey depot depot 0) = None
   \<and> serviceTimeDefaults DEFAULT_ETA_CONFIG ''apartment_delivery'' = Some 4
   \<and> serviceTimeMinutes
        (fst (estimateETA noon_env DEFAULT_ETA_CONFIG empty_model depot depot 0 None
                (Some ''apartment_delivery''))) = Num 4
   \<and> serviceTimeMinutes
        (fst (estimateETA noon_env DEFAULT_ETA_CONFIG empty_model depot depot 0 None None)) = Num 0
   \<and> serviceTimeDefaults DEFAULT_ETA_CONFIG ''lobby'' = None
   \<and> ''lobby'' \<notin> set Object_prototype_names
   \<and> serviceTimeMinutes
        (fst (estimateETA noon_env DEFAULT_ETA_CONFIG empty_model depot depot 0 None
                (Some ''lobby''))) = Num 3
   \<and> serviceTimeDefaults DEFAULT_ETA_CONFIG ''constructor'' = None
   \<and> ''constructor'' \<in> set Object_prototype_names
   \<and> serviceTimeMinutes
        (fst (estimateETA noon_env DEFAULT_ETA_CONFIG empty_model depot depot 0 None
                (Some ''constructor''))) = NonNumeric"
proof -
  have miss: "cached_estimate noon_env DEFAULT_ETA_CONFIG empty_model
                (generateCacheKey depot depot 0) = None"
    by (simp add: cached_estimate_def empty_model_def)
  have k: "serviceTimeDefaults DEFAULT_ETA_CONFIG ''apartment_delivery'' = Some 4"
    by (simp add: DEFAULT_ETA_CONFIG_def)
  have u: "serviceTimeDefaults DEFAULT_ETA_CONFIG ''lobby'' = None"
    by (simp add: DEFAULT_ETA_CONFIG_def)
  have n: "''lobby'' \<notin> set Object_prototype_names"
    by (simp add: Object_prototype_names_def)
  have c: "serviceTimeDefaults DEFAULT_ETA_CONFIG ''constructor'' = None"
    by (simp add: DEFAULT_ETA_CONFIG_def)
  have i: "''constructor'' \<in> set Object_prototype_names"
    by (simp add: Object_prototype_names_def)
  have "serviceTimeMinutes
        (fst (estimateETA noon_env DEFAULT_ETA_CONFIG empty_model depot depot 0 None
                (Some ''apartment_delivery''))) = Num 4"
    using C6_service_time [of noon_env DEFAULT_ETA_CONFIG empty_model depot depot 0 None
        "Some ''apartment_delivery''"] miss k by simp
  moreover have "serviceTimeMinutes
        (fst (estimateETA noon_env DEFAULT_ETA_CONFIG empty_model depot depot 0 None None))
        = Num 0"
    using C6_service_time [of noon_env DEFAULT_ETA_CONFIG empty_model depot depot 0 None None]
      miss by simp
  moreover have "serviceTimeMinutes
        (fst (estimateETA noon_env DEFAULT_ETA_CONFIG empty_model depot depot 0 None
                (Some ''lobby''))) = Num 3"
    using C6_service_time [of noon_env DEFAULT_ETA_CONFIG empty_model depot depot 0 None
        "Some ''lobby''"] miss u n by simp
  moreover have "serviceTimeMinutes
        (fst (estimateETA noon_env DEFAULT_ETA_CONFIG empty_model depot depot 0 None
                (Some ''constructor''))) = NonNumeric"
    using C6_service_time [of noon_env DEFAULT_ETA_CONFIG empty_model depot depot 0 None
        "Some ''constructor''"] miss c i by simp
  ultimately show ?thesis using miss k u n c i by blast
qed

text \<open>With a building type named like an inherited member the duration, the sum of the
  travel time and the member, is not a number either.\<close>

lemma inherited_member_duration:
  "estimatedDurationMinutes
     (fst (estimateETA noon_env DEFAULT_ETA_CONFIG empty_model depot depot 0 None
             (Some ''constructor''))) = NonNumeric"
  by (simp add: estimateETA_def cached_estimate_def empty_model_def service_time_def
      js_plus_def DEFAULT_ETA_CONFIG_def Object_prototype_names_def Let_def split: prod.splits)

text \<open>A call of \<open>estimateETA\<close> without a building type, as the scorer makes it, returns a
  numeric duration on a numeric cache and leaves the cache numeric.\<close>

lemma numeric_cache_set:
  assumes "numeric_cache st" and "estimatedDurationMinutes est \<noteq> NonNumeric"
    and "etaCache st' = map_set (etaCache st) k (est, t)"
  shows "numeric_cache st'"
  unfolding numeric_cache_def
proof
  fix e assume "e \<in> set (etaCache st')"
  then have "e = (k, est, t) \<or> e \<in> set (etaCache st)"
    using map_set_entries [of "etaCache st" k "(est, t)"] assms(3) by auto
  then show "case e of (k, est, t) \<Rightarrow> estimatedDurationMinutes est \<noteq> NonNumeric"
    using assms(1,2) by (auto simp: numeric_cache_def)
qed

lemma estimateETA_numeric:
  assumes "numeric_cache st"
  shows "estimatedDurationMinutes
           (fst (estimateETA env config st origin destination departure rid None)) \<noteq> NonNumeric
     \<and> numeric_cache (snd (estimateETA env config st origin destination departure rid None))"
proof (cases "cached_estimate env config st (generateCacheKey origin destination departure)")
  case (Some est)
  then obtain t where "(generateCacheKey origin destination departure, est, t) \<in> set (etaCache st)"
    by (auto simp: cached_estimate_def split: option.splits if_splits dest: map_of_SomeD)
  then have "estimatedDurationMinutes est \<noteq> NonNumeric"
    using assms by (auto simp: numeric_cache_def)
  then show ?thesis using Some assms by (simp add: estimateETA_def)
next
  case None
  let ?r = "estimateETA env config st origin destination departure rid None"
  obtain sp st1 where sp: "(case rid of None \<Rightarrow> (1, st)
      | Some r \<Rightarrow> if r = [] then (1, st) else getRiderSpeedMultiplier env st r) = (sp, st1)"
    by (cases "case rid of None \<Rightarrow> (1, st)
      | Some r \<Rightarrow> if r = [] then (1, st) else getRiderSpeedMultiplier env st r")
  have c1: "etaCache st1 = etaCache st"
    using sp by (auto simp: getRiderSpeedMultiplier_def Let_def split: option.splits if_splits)
  have num: "estimatedDurationMinutes (fst ?r) \<noteq> NonNumeric"
    using None sp by (simp add: estimateETA_def Let_def service_time_def js_plus_def)
  have "etaCache (snd ?r)
      = map_set (etaCache st) (generateCacheKey origin destination departure)
          (fst ?r, dateNow env)"
    using None sp by (simp add: estimateETA_def Let_def c1)
  from numeric_cache_set [OF assms num this] num show ?thesis by simp
qed

subsection \<open>Configuration\<close>

text \<open>The exact addition is accurate, so accurate additions exist.\<close>

lemma accurate_exact: "accurate (+)"
  by (simp add: accurate_def)

text \<open>
  Claim C7 as stated (\<open>build\<close> fails when the surge ratios or the radii are not strictly
  increasing or a numeric parameter is negative) fails. With surge ratios 2, 1.5, 1.2,
  radii 20, 10, 5, a cycle interval of -30 and the weights 1/2, 1/4, 1/8, 1/16, 1/32, 1/32,
  whose partial sums are all doubles, so that the double-precision addition is the exact
  one, \<open>build\<close> returns the configuration. With the default weights, the same surge
  ratios and the same cycle interval, \<open>build\<close> returns the configuration under every
  accurate addition.
\<close>

theorem C7_unordered_config_is_built:
  "build (+)
     (setWeights [(k_w1_time, 1 / 2), (k_w2_slaRisk, 1 / 4), (k_w3_distance, 1 / 8),
                  (k_w4_batchDisruption, 1 / 16), (k_w5_workload, 1 / 32),
                  (k_w6_affinity, 1 / 32)]
        (setCycleInterval (- 30) (setSurgeRatios 2 (15 / 10) (12 / 10)
            (ConfigurationBuilder
               (no_base\<lparr>b_candidateGeneration :=
                  Some \<lparr>initialRadiusKm = 20, expandedRadiusKm = 10, maxRadiusKm = 5,
                        radiusExpansionMinutesThreshold = 20\<rparr>\<rparr>)))))
   = Inr \<lparr>cycleIntervalSeconds = - 30, maxOrdersPerCycle = 500, maxRidersPerAssignment = 150,
          optimizerTimeoutSeconds = 15 / 10, hungarianThreshold = 10000,
          weights = \<lparr>w1_time = 1 / 2, w2_slaRisk = 1 / 4, w3_distance = 1 / 8,
                     w4_batchDisruption = 1 / 16, w5_workload = 1 / 32,
                     w6_affinity = 1 / 32\<rparr>,
          candidateGeneration =
            \<lparr>initialRadiusKm = 20, expandedRadiusKm = 10, maxRadiusKm = 5,
             radiusExpansionMinutesThreshold = 20\<rparr>,
          batching = DEFAULT_BATCHING_CONFIG,
          reassignment = DEFAULT_REASSIGNMENT_CONFIG,
          surge = \<lparr>softSurgeRatio = 2, hardSurgeRatio = 15 / 10, crisisRatio = 12 / 10,
                   prepositionLookbackMinutes = 30, batchSizeIncrement = 1,
                   radiusExpansionFactor = 15 / 10\<rparr>,
          eta = DEFAULT_ETA_CONFIG,
          fatigue = DEFAULT_FATIGUE_CONFIG,
          sla = DEFAULT_SLA_CONFIG\<rparr>
   \<and> \<not> (\<exists>fl_add. accurate fl_add
          \<and> build fl_add
                (setCycleInterval (- 30) (setSurgeRatios 2 (15 / 10) (12 / 10)
                   (ConfigurationBuilder no_base)))
              \<noteq> Inr (setCycleInterval (- 30) (setSurgeRatios 2 (15 / 10) (12 / 10)
                        (ConfigurationBuilder no_base))))"
proof (intro conjI notI)
  show "build (+)
     (setWeights [(k_w1_time, 1 / 2), (k_w2_slaRisk, 1 / 4), (k_w3_distance, 1 / 8),
                  (k_w4_batchDisruption, 1 / 16), (k_w5_workload, 1 / 32),
                  (k_w6_affinity, 1 / 32)]
        (setCycleInterval (- 30) (setSurgeRatios 2 (15 / 10) (12 / 10)
            (ConfigurationBuilder
               (no_base\<lparr>b_candidateGeneration :=
                  Some \<lparr>initialRadiusKm = 20, expandedRadiusKm = 10, maxRadiusKm = 5,
                        radiusExpansionMinutesThreshold = 20\<rparr>\<rparr>)))))
   = Inr \<lparr>cycleIntervalSeconds = - 30, maxOrdersPerCycle = 500, maxRidersPerAssignment = 150,
          optimizerTimeoutSeconds = 15 / 10, hungarianThreshold = 10000,
          weights = \<lparr>w1_time = 1 / 2, w2_slaRisk = 1 / 4, w3_distance = 1 / 8,
                     w4_batchDisruption = 1 / 16, w5_workload = 1 / 32,
                     w6_affinity = 1 / 32\<rparr>,
          candidateGeneration =
            \<lparr>initialRadiusKm = 20, expandedRadiusKm = 10, maxRadiusKm = 5,
             radiusExpansionMinutesThreshold = 20\<rparr>,
          batching = DEFAULT_BATCHING_CONFIG,
          reassignment = DEFAULT_REASSIGNMENT_CONFIG,
          surge = \<lparr>softSurgeRatio = 2, hardSurgeRatio = 15 / 10, crisisRatio = 12 / 10,
                   prepositionLookbackMinutes = 30, batchSizeIncrement = 1,
                   radiusExpansionFactor = 15 / 10\<rparr>,
          eta = DEFAULT_ETA_CONFIG,
          fatigue = DEFAULT_FATIGUE_CONFIG,
          sla = DEFAULT_SLA_CONFIG\<rparr>"
    by (simp add: build_def setWeights_def setWeight_def setCycleInterval_def
        setSurgeRatios_def ConfigurationBuilder_def no_base_def or_default_def weightSum_def
        double_0_01_def DEFAULT_SCORING_WEIGHTS_def DEFAULT_SURGE_CONFIG_def)
next
  let ?c = "setCycleInterval (- 30) (setSurgeRatios 2 (15 / 10) (12 / 10)
              (ConfigurationBuilder no_base))"
  assume "\<exists>fl_add. accurate fl_add \<and> build fl_add ?c \<noteq> Inr ?c"
  then obtain fl_add where acc: "accurate fl_add" and nb: "build fl_add ?c \<noteq> Inr ?c"
    by blast
  have w: "weights ?c = DEFAULT_SCORING_WEIGHTS"
    by (simp add: setCycleInterval_def setSurgeRatios_def ConfigurationBuilder_def no_base_def
        or_default_def)
  define a1 where "a1 = fl_add 0 (30 / 100)"
  define a2 where "a2 = fl_add a1 (35 / 100)"
  define a3 where "a3 = fl_add a2 (15 / 100)"
  define a4 where "a4 = fl_add a3 (12 / 100)"
  define a5 where "a5 = fl_add a4 (5 / 100)"
  define a6 where "a6 = fl_add a5 (3 / 100)"
  define d where "d = fl_add a6 (- 1)"
  define eps :: real where "eps = 1 / 10 ^ 12"
  have eps: "0 \<le> eps" "eps \<le> 1 / 1000"
    by (simp_all add: eps_def)
  have step: "\<bar>x\<bar> \<le> 2 \<Longrightarrow> \<bar>y\<bar> \<le> 2 \<Longrightarrow> \<bar>fl_add x y - (x + y)\<bar> \<le> eps" for x y
    using acc by (simp add: accurate_def eps_def)
  have e1: "\<bar>a1 - 30 / 100\<bar> \<le> eps"
    using step [of 0 "30 / 100"] by (simp add: a1_def)
  have "\<bar>a1\<bar> \<le> 2" using e1 eps by linarith
  then have e2: "\<bar>a2 - (a1 + 35 / 100)\<bar> \<le> eps"
    using step [of a1 "35 / 100"] by (simp add: a2_def)
  have "\<bar>a2\<bar> \<le> 2" using e1 e2 eps by linarith
  then have e3: "\<bar>a3 - (a2 + 15 / 100)\<bar> \<le> eps"
    using step [of a2 "15 / 100"] by (simp add: a3_def)
  have "\<bar>a3\<bar> \<le> 2" using e1 e2 e3 eps by linarith
  then have e4: "\<bar>a4 - (a3 + 12 / 100)\<bar> \<le> eps"
    using step [of a3 "12 / 100"] by (simp add: a4_def)
  have "\<bar>a4\<bar> \<le> 2" using e1 e2 e3 e4 eps by linarith
  then have e5: "\<bar>a5 - (a4 + 5 / 100)\<bar> \<le> eps"
    using step [of a4 "5 / 100"] by (simp add: a5_def)
  have "\<bar>a5\<bar> \<le> 2" using e1 e2 e3 e4 e5 eps by linarith
  then have e6: "\<bar>a6 - (a5 + 3 / 100)\<bar> \<le> eps"
    using step [of a5 "3 / 100"] by (simp add: a6_def)
  have "\<bar>a6\<bar> \<le> 2" using e1 e2 e3 e4 e5 e6 eps by linarith
  then have e7: "\<bar>d - (a6 + - 1)\<bar> \<le> eps"
    using step [of a6 "- 1"] by (simp add: d_def)
  have "\<bar>d\<bar> \<le> 7 * eps"
    using e1 e2 e3 e4 e5 e6 e7 by linarith
  then have "\<bar>d\<bar> \<le> 7 / 1000" using eps by linarith
  moreover have "(7 / 1000 :: real) < double_0_01" by (simp add: double_0_01_def)
  ultimately have "\<not> \<bar>d\<bar> > double_0_01" by linarith
  moreover have "fl_add (weightSum fl_add (weights ?c)) (- 1) = d"
    by (simp only: w)
      (simp add: weightSum_def DEFAULT_SCORING_WEIGHTS_def d_def a6_def a5_def a4_def a3_def
        a2_def a1_def)
  ultimately have "build fl_add ?c = Inr ?c"
    by (simp only: build_def Let_def if_False)
  with nb show False by contradiction
qed

text \<open>
  Claim C7 as amended: \<open>build\<close> fails exactly when the sum of the six scoring weights, as
  the double-precision addition computes it from 0 in the order w1 to w6, less 1 exceeds the
  double 0.01 in magnitude, and otherwise returns the configuration unchanged; whether it
  fails does not depend on the surge ratios, the radii or the cycle interval.
\<close>

theorem C7_build_checks_weight_sum:
  "(isl (build fl_add c) \<longleftrightarrow>
      \<bar>fl_add
         (fl_add (fl_add (fl_add (fl_add (fl_add (fl_add 0 (w1_time (weights c)))
            (w2_slaRisk (weights c))) (w3_distance (weights c)))
            (w4_batchDisruption (weights c))) (w5_workload (weights c)))
            (w6_affinity (weights c)))
         (- 1)\<bar> > double_0_01)
   \<and> (build fl_add c = Inr c \<longleftrightarrow>
      \<bar>fl_add
         (fl_add (fl_add (fl_add (fl_add (fl_add (fl_add 0 (w1_time (weights c)))
            (w2_slaRisk (weights c))) (w3_distance (weights c)))
            (w4_batchDisruption (weights c))) (w5_workload (weights c)))
            (w6_affinity (weights c)))
         (- 1)\<bar> \<le> double_0_01)
   \<and> isl (build fl_add (c\<lparr>cycleIntervalSeconds := t, candidateGeneration := g, surge := s\<rparr>))
       = isl (build fl_add c)"
  by (auto simp: build_def weightSum_def Let_def)

text \<open>At the boundary the rounding decides: with \<open>w1_time\<close> 0.31 and the other default
  weights the exact sum less 1 is 0.01, below the double 0.01, so the exact addition
  accepts, while an accurate addition that errs upwards throws.\<close>

lemma build_boundary_depends_on_rounding:
  "build (+) (setWeight k_w1_time (31 / 100) (ConfigurationBuilder no_base))
     = Inr (setWeight k_w1_time (31 / 100) (ConfigurationBuilder no_base))
   \<and> accurate (\<lambda>a b. a + b + 1 / 10 ^ 13)
   \<and> isl (build (\<lambda>a b. a + b + 1 / 10 ^ 13)
            (setWeight k_w1_time (31 / 100) (ConfigurationBuilder no_base)))"
  by (simp add: build_def weightSum_def accurate_def double_0_01_def setWeight_def
      ConfigurationBuilder_def no_base_def or_default_def DEFAULT_SCORING_WEIGHTS_def Let_def)

subsection \<open>Reassignment engine\<close>

lemma set_set_add: "set (set_add xs x) = insert x (set xs)"
  by (auto simp: set_add_def)

lemma arrival_scan_fst:
  "set (fst (arrival_scan os rs order a acc))
     = set (fst acc) \<union>
       (if \<exists>ao r. map_of os (asgOrderId a) = Some ao \<and> priority ao = normal
                   \<and> map_of rs (asgRiderId a) = Some r
                   \<and> haversineDistance (riderLocation r) (pickupLocation (pickup order)) < 3
        then {orderId order} else {})"
  by (cases acc) (auto simp: arrival_scan_def set_set_add split: option.splits)

lemma arrival_scan_fold_fst:
  "set (fst (fold (arrival_scan os rs order) as acc))
     = set (fst acc) \<union>
       (if \<exists>a \<in> set as. \<exists>ao r. map_of os (asgOrderId a) = Some ao \<and> priority ao = normal
                   \<and> map_of rs (asgRiderId a) = Some r
                   \<and> haversineDistance (riderLocation r) (pickupLocation (pickup order)) < 3
        then {orderId order} else {})"
proof (induction as arbitrary: acc)
  case Nil
  then show ?case by simp
next
  case (Cons a as)
  show ?case
    by (simp only: fold_simps Cons.IH arrival_scan_fst) (auto split: if_splits)
qed

lemma arrival_order_fold_fst:
  "set (fst (fold (arrival_order config os asgs rs now) ps acc))
     = set (fst acc) \<union>
       {orderId x | x. x \<in> set ps
          \<and> slaDeadline x
              \<le> new_Date (real_of_int now + triggerHighPrioritySlaCutoffMinutes config * 60 * 1000)
          \<and> (\<exists>a \<in> set (map snd asgs). \<exists>ao r.
                map_of os (asgOrderId a) = Some ao \<and> priority ao = normal
                \<and> map_of rs (asgRiderId a) = Some r
                \<and> haversineDistance (riderLocation r) (pickupLocation (pickup x)) < 3)}"
proof (induction ps arbitrary: acc)
  case Nil
  then show ?case by simp
next
  case (Cons p ps)
  have step: "set (fst (arrival_order config os asgs rs now p acc))
     = set (fst acc) \<union>
       (if slaDeadline p
              \<le> new_Date (real_of_int now + triggerHighPrioritySlaCutoffMinutes config * 60 * 1000)
          \<and> (\<exists>a \<in> set (map snd asgs). \<exists>ao r.
                map_of os (asgOrderId a) = Some ao \<and> priority ao = normal
                \<and> map_of rs (asgRiderId a) = Some r
                \<and> haversineDistance (riderLocation r) (pickupLocation (pickup p)) < 3)
        then {orderId p} else {})"
  proof (cases "slaDeadline p
              \<le> new_Date (real_of_int now + triggerHighPrioritySlaCutoffMinutes config * 60 * 1000)")
    case True
    then show ?thesis
      by (simp only: arrival_order_def Let_def arrival_scan_fold_fst if_True simp_thms)
  next
    case False
    then show ?thesis by (simp add: arrival_order_def Let_def)
  qed
  show ?case
    by (simp only: fold_simps Cons.IH step) (auto split: if_splits)
qed

text \<open>
  Claim C9 as amended: the \<open>affectedOrderIds\<close> of the \<open>high_priority_arrival\<close> trigger
  are the ids of the priority orders themselves, namely the critical orders, and the high
  orders with no entry in \<open>assignments\<close>, whose deadline is at most
  \<open>triggerHighPrioritySlaCutoffMinutes\<close> after now and for which some assignment has a
  normal order and a rider less than 3 km from the priority order's pickup; at most one
  such trigger is returned.
\<close>

theorem C9_priority_orders_flagged:
  "set (concat (map affectedOrderIds (detectHighPriorityArrivals config os asgs rs now)))
     = {orderId x | x. x \<in> set (map snd os)
          \<and> (priority x = critical \<or> (priority x = high \<and> map_of asgs (orderId x) = None))
          \<and> slaDeadline x
              \<le> new_Date (real_of_int now + triggerHighPrioritySlaCutoffMinutes config * 60 * 1000)
          \<and> (\<exists>a \<in> set (map snd asgs). \<exists>ao r.
                map_of os (asgOrderId a) = Some ao \<and> priority ao = normal
                \<and> map_of rs (asgRiderId a) = Some r
                \<and> haversineDistance (riderLocation r) (pickupLocation (pickup x)) < 3)}
   \<and> length (detectHighPriorityArrivals config os asgs rs now) \<le> 1"
proof -
  let ?ps = "filter (\<lambda>x. priority x = critical
                         \<or> (priority x = high \<and> map_of asgs (orderId x) = None)) (map snd os)"
  let ?acc = "fold (arrival_order config os asgs rs now) ?ps ([], [])"
  have "set (concat (map affectedOrderIds (detectHighPriorityArrivals config os asgs rs now)))
          = set (fst ?acc)"
    by (cases ?acc) (simp add: detectHighPriorityArrivals_def Let_def)
  moreover have "length (detectHighPriorityArrivals config os asgs rs now) \<le> 1"
    by (cases ?acc) (simp add: detectHighPriorityArrivals_def Let_def)
  ultimately show ?thesis
    by (simp add: arrival_order_fold_fst)
qed

lemma digits_of_1: "digits_of (Suc 0) = ''1''"
  by code_simp

lemmas example_order_fields =
  critical_order_def normal_order_def fragile_order_def normal_assignment_def

text \<open>
  Claim C9 as stated (the affected orders are the nearby normal assigned orders, not the
  priority orders) fails: with a critical order due in ten minutes and a normal order
  assigned to a rider at its pickup, the trigger names the critical order and not the
  normal one.
\<close>

theorem C9_priority_order_is_the_affected_one:
  "priority critical_order = critical \<and> priority normal_order = normal
   \<and> orderId normal_order = ''normal_1''
   \<and> detectHighPriorityArrivals DEFAULT_REASSIGNMENT_CONFIG
        [(''critical_1'', critical_order), (''normal_1'', normal_order)]
        [(''normal_1'', normal_assignment)] [(''rider_1'', standard_rider)] 0
      = [\<lparr>triggerType = high_priority_arrival, affectedOrderIds = [''critical_1''],
           affectedRiderIds = [''rider_1''],
           reason = ''1 high-priority orders need immediate assignment'', timestamp = 0\<rparr>]"
  by (simp add: detectHighPriorityArrivals_def arrival_order_def arrival_scan_def set_add_def
      new_Date_def DEFAULT_REASSIGNMENT_CONFIG_def example_order_fields standard_rider_def
      haversineDistance_same Let_def digits_of_1 del: digits_of.simps)

text \<open>C9 on the same state: both sides of the equation are the one critical order.\<close>

theorem C9_priority_orders_flagged_witness:
  "set (concat (map affectedOrderIds
          (detectHighPriorityArrivals DEFAULT_REASSIGNMENT_CONFIG
             [(''critical_1'', critical_order), (''normal_1'', normal_order)]
             [(''normal_1'', normal_assignment)] [(''rider_1'', standard_rider)] 0)))
     = {''critical_1''}
   \<and> {orderId x | x. x \<in> set (map snd
             [(''critical_1'', critical_order), (''normal_1'', normal_order)])
          \<and> (priority x = critical
              \<or> (priority x = high
                  \<and> map_of [(''normal_1'', normal_assignment)] (orderId x) = None))
          \<and> slaDeadline x
              \<le> new_Date (real_of_int 0
                    + triggerHighPrioritySlaCutoffMinutes DEFAULT_REASSIGNMENT_CONFIG * 60 * 1000)
          \<and> (\<exists>a \<in> set (map snd [(''normal_1'', normal_assignment)]). \<exists>ao r.
                map_of [(''critical_1'', critical_order), (''normal_1'', normal_order)]
                  (asgOrderId a) = Some ao \<and> priority ao = normal
                \<and> map_of [(''rider_1'', standard_rider)] (asgRiderId a) = Some r
                \<and> haversineDistance (riderLocation r) (pickupLocation (pickup x)) < 3)}
     = {''critical_1''}"
proof -
  have ev: "set (concat (map affectedOrderIds
          (detectHighPriorityArrivals DEFAULT_REASSIGNMENT_CONFIG
             [(''critical_1'', critical_order), (''normal_1'', normal_order)]
             [(''normal_1'', normal_assignment)] [(''rider_1'', standard_rider)] 0)))
     = {''critical_1''}"
    by (simp add: detectHighPriorityArrivals_def arrival_order_def arrival_scan_def set_add_def
      new_Date_def DEFAULT_REASSIGNMENT_CONFIG_def example_order_fields standard_rider_def
      haversineDistance_same Let_def)
  from C9_priority_orders_flagged [of DEFAULT_REASSIGNMENT_CONFIG
        "[(''critical_1'', critical_order), (''normal_1'', normal_order)]"
        "[(''normal_1'', normal_assignment)]" "[(''rider_1'', standard_rider)]" 0]
  have eq: "set (concat (map affectedOrderIds
          (detectHighPriorityArrivals DEFAULT_REASSIGNMENT_CONFIG
             [(''critical_1'', critical_order), (''normal_1'', normal_order)]
             [(''normal_1'', normal_assignment)] [(''rider_1'', standard_rider)] 0)))
     = {orderId x | x. x \<in> set (map snd
             [(''critical_1'', critical_order), (''normal_1'', normal_order)])
          \<and> (priority x = critical
              \<or> (priority x = high
                  \<and> map_of [(''normal_1'', normal_assignment)] (orderId x) = None))
          \<and> slaDeadline x
              \<le> new_Date (real_of_int 0
                    + triggerHighPrioritySlaCutoffMinutes DEFAULT_REASSIGNMENT_CONFIG * 60 * 1000)
          \<and> (\<exists>a \<in> set (map snd [(''normal_1'', normal_assignment)]). \<exists>ao r.
                map_of [(''critical_1'', critical_order), (''normal_1'', normal_order)]
                  (asgOrderId a) = Some ao \<and> priority ao = normal
                \<and> map_of [(''rider_1'', standard_rider)] (asgRiderId a) = Some r
                \<and> haversineDistance (riderLocation r) (pickupLocation (pickup x)) < 3)}"
    by (rule conjunct1)
  show ?thesis
    by (rule conjI [OF ev]) (rule trans [OF eq [symmetric] ev])
qed

lemma upt_0_2: "[0..<2] = [0, 1]" by (simp add: upt_rec)
lemma upt_1_2: "[1..<2] = [1]" by (simp add: upt_rec)

lemma hungarianAlgorithm_1x1:
  assumes "c < 10 ^ 10"
  shows "hungarianAlgorithm [[c]] = Some [Some 0]"
proof -
  let ?h = "\<lparr>hu = [0, 0], hv = [0, 0], hp = [0, 0], hway = [0, 0]\<rparr>"
  let ?s0 = "hstate.extend (?h\<lparr>hp := (hp ?h)[0 := 1]\<rparr>)
      (rstate.fields (replicate (1 + 1) (10 ^ 10)) (replicate (1 + 1) False) 0)"
  let ?s1 = "\<lparr>hu = [0, c], hv = [- c, 0], hp = [1, 0], hway = [0, 0],
         minv = [10 ^ 10, 0], used = [True, False], j0 = 1\<rparr>"
  have step: "search_step [[c]] 1 ?s0 = ?s1"
    using assms
    by (simp add: search_step_def scan_col_def shift_col_def hstate.defs rstate.defs
        upt_0_2 upt_1_2 Let_def)
  have stop: "hp ?s1 ! j0 ?s1 = 0" by simp
  have srch: "search [[c]] 1 ?s0 = Some ?s1"
    by (subst search.simps) (simp only: step Let_def stop, simp)
  have aug: "augment (hway ?s1) (hp ?s1) (j0 ?s1) = Some [1, 1]"
    by (subst augment.simps) simp
  have row: "row_iter [[c]] 1 1 ?h
      = Some \<lparr>hu = [0, c], hv = [- c, 0], hp = [1, 1], hway = [0, 0]\<rparr>"
    by (simp only: row_iter_def srch aug option.case) simp
  have init: "\<lparr>hu = replicate (1 + 1) 0, hv = replicate (1 + 1) 0,
                 hp = replicate (1 + 1) 0, hway = replicate (1 + 1) 0\<rparr> = ?h"
    by (simp add: numeral_2_eq_2)
  have "rows_loop [[c]] 1 [1] ?h
      = Some \<lparr>hu = [0, c], hv = [- c, 0], hp = [1, 1], hway = [0, 0]\<rparr>"
    by (simp only: rows_loop.simps row option.case)
  then show ?thesis
    by (simp add: hungarianAlgorithm_def Let_def upt_1_2 write_result_def numeral_2_eq_2)
qed

lemma hungarian_optimize_1x1:
  assumes "c < 10 ^ 10"
  shows "hungarian_optimize \<lparr>orders = [a], riders = [b], costMatrix = [[c]]\<rparr>
     = Some \<lparr>pairs = [(0, 0)], assignments = [(a, b)], totalCost = Fin c, algorithm = hungarian\<rparr>"
  by (simp add: hungarian_optimize_def padCostMatrix_def hungarianAlgorithm_1x1 [OF assms]
      hungarian_pairs_def set_pairs_def sum_pairs_def Let_def)

subsection \<open>Cycle orchestrator\<close>

lemma score_cost_eq:
  "cost (fst (scoreAssignment env config ws scale st order rider now))
     = w1_time ws * fst (calculateDeltaTimeCost env config st order rider now)
       + w2_slaRisk ws
         * fst (calculateSLARiskCost env config scale
                  (snd (calculateDeltaTimeCost env config st order rider now)) order rider now)
       + w3_distance ws * calculateDistanceCost order rider
       + w4_batchDisruption ws * calculateBatchDisruptionCost rider
       + w5_workload ws * calculateWorkloadImbalanceCost rider
       + w6_affinity ws * calculateAffinityCost order rider"
  by (simp add: scoreAssignment_def Let_def split: prod.splits)

lemma score_ids:
  "srOrderId (fst (scoreAssignment env config ws scale st order rider now)) = orderId order"
  "srRiderId (fst (scoreAssignment env config ws scale st order rider now)) = riderId rider"
  by (simp_all add: scoreAssignment_def Let_def split: prod.splits)

lemma sla_risk_unit:
  "0 \<le> fst (calculateSLARiskCost env config scale st order rider now)"
  "fst (calculateSLARiskCost env config scale st order rider now) \<le> 1"
  by (simp_all add: calculateSLARiskCost_def Let_def split: prod.splits)

lemma example_delta_time:
  "fst (calculateDeltaTimeCost noon_env DEFAULT_ETA_CONFIG empty_model fragile_order
          standard_rider 0) = 0"
  by (simp add: calculateDeltaTimeCost_def estimateETA_def cached_estimate_def
      getRiderSpeedMultiplier_def generateCacheKey_def estimateTravelTime_def
      haversineDistance_same getTrafficMultiplier_def service_time_def js_plus_def
      minutes_of_def new_Date_def noon_env_def empty_model_def DEFAULT_ETA_CONFIG_def fragile_order_def standard_rider_def
      Let_def split: prod.splits)


lemma example_cost_below_half: "example_cost < 5 / 10"
proof -
  let ?sr = "fst (calculateSLARiskCost noon_env DEFAULT_ETA_CONFIG 10
                  (snd (calculateDeltaTimeCost noon_env DEFAULT_ETA_CONFIG empty_model
                          fragile_order standard_rider 0)) fragile_order standard_rider 0)"
  have dc: "calculateDistanceCost fragile_order standard_rider = 0"
    by (simp add: calculateDistanceCost_def haversineDistance_same fragile_order_def
        standard_rider_def)
  have bd: "calculateBatchDisruptionCost standard_rider = 0"
    by (simp add: calculateBatchDisruptionCost_def standard_rider_def)
  have wl: "calculateWorkloadImbalanceCost standard_rider = 0"
    by (simp add: calculateWorkloadImbalanceCost_def standard_rider_def)
  have af: "calculateAffinityCost fragile_order standard_rider = - (57 / 100)"
    by (simp add: calculateAffinityCost_def standard_rider_def)
  have "example_cost = 35 / 100 * ?sr + 3 / 100 * (- (57 / 100))"
    by (simp add: example_cost_def score_cost_eq example_delta_time dc bd wl af
        DEFAULT_ENGINE_CONFIG_def DEFAULT_SCORING_WEIGHTS_def DEFAULT_SLA_CONFIG_def)
  moreover have "?sr \<le> 1" by (rule sla_risk_unit)
  ultimately show ?thesis by simp
qed

lemma one_order_engine_fields:
  "engineConfig one_order_engine = DEFAULT_ENGINE_CONFIG"
  "engineOrders one_order_engine = [(''fragile_order'', fragile_order)]"
  "engineRiders one_order_engine = [(''rider_1'', standard_rider)]"
  "riderLocations one_order_engine = [(''rider_1'', depot)]"
  "etaModel one_order_engine = empty_model"
  by (simp_all add: one_order_engine_def updateState_def updateRiderLocations_def
      standard_rider_fields)

lemma example_stage1:
  "stage1CandidateGeneration one_order_engine [fragile_order] 0
     = [(''fragile_order'', [''rider_1''])]"
  by (simp add: stage1CandidateGeneration_def one_order_engine_fields
      DEFAULT_ENGINE_CONFIG_def fragile_order_candidates Let_def)

lemma example_stage2:
  "fst (stage2Scoring noon_env one_order_engine [fragile_order]
          [(''fragile_order'', [''rider_1''])] 0)
     = [fst (scoreAssignment noon_env (eta DEFAULT_ENGINE_CONFIG)
               (weights DEFAULT_ENGINE_CONFIG)
               (slaRiskSigmoidScale (sla DEFAULT_ENGINE_CONFIG)) empty_model fragile_order
               standard_rider 0)]"
  by (simp add: stage2Scoring_def score_candidate_def one_order_engine_fields
      fragile_order_fields or_default_def Let_def split: prod.splits)

lemma example_matrix:
  "build_matrix
     [fst (scoreAssignment noon_env (eta DEFAULT_ENGINE_CONFIG)
               (weights DEFAULT_ENGINE_CONFIG)
               (slaRiskSigmoidScale (sla DEFAULT_ENGINE_CONFIG)) empty_model fragile_order
               standard_rider 0)]
     = \<lparr>orders = [''fragile_order''], riders = [''rider_1''], costMatrix = [[example_cost]]\<rparr>"
  by (simp add: build_matrix_def dedupe_def set_add_def indexOf_def or_default_def score_ids
      fragile_order_fields standard_rider_fields example_cost_def Let_def)

lemma example_stage3:
  "stage3GlobalOptimization one_order_engine
     [fst (scoreAssignment noon_env (eta DEFAULT_ENGINE_CONFIG)
               (weights DEFAULT_ENGINE_CONFIG)
               (slaRiskSigmoidScale (sla DEFAULT_ENGINE_CONFIG)) empty_model fragile_order
               standard_rider 0)]
     = Some [(''fragile_order'', ''rider_1'')]"
proof -
  have "example_cost < 10 ^ 10" using example_cost_below_half by simp
  then show ?thesis
    by (simp only: stage3GlobalOptimization_def example_matrix)
       (simp add: adaptive_optimize_def hungarian_optimize_1x1 one_order_engine_fields
          DEFAULT_ENGINE_CONFIG_def Let_def)
qed

lemma example_decisions:
  "fst (createAssignmentDecisions [(''fragile_order'', ''rider_1'')]
          [(''fragile_order'', fragile_order)] [(''rider_1'', standard_rider)])
     = [\<lparr>decOrderId = ''fragile_order'', decRiderId = ''rider_1'', decSequenceIndex = 0\<rparr>]"
  by (simp add: createAssignmentDecisions_def decide_def standard_rider_fields)

text \<open>The example cycle: one pending order, one rider, default configuration.\<close>

lemma example_cycle:
  "map_option (\<lambda>(res, e'). (decisions res, successCount res, failureCount res,
                              avgCost (metrics res)))
     (executeCycle noon_env one_order_engine)
   = Some ([\<lparr>decOrderId = ''fragile_order'', decRiderId = ''rider_1'', decSequenceIndex = 0\<rparr>],
           1, 0, 5 / 10)"
proof -
  have pend: "filter (\<lambda>x. status x = pending_assignment) (map snd (engineOrders one_order_engine))
          = [fragile_order]"
    by (simp add: one_order_engine_fields fragile_order_fields)
  obtain scores st where s2: "stage2Scoring noon_env one_order_engine [fragile_order]
          [(''fragile_order'', [''rider_1''])] 0 = (scores, st)"
    by (cases "stage2Scoring noon_env one_order_engine [fragile_order]
          [(''fragile_order'', [''rider_1''])] 0") auto
  with example_stage2 have sc: "scores
     = [fst (scoreAssignment noon_env (eta DEFAULT_ENGINE_CONFIG)
               (weights DEFAULT_ENGINE_CONFIG)
               (slaRiskSigmoidScale (sla DEFAULT_ENGINE_CONFIG)) empty_model fragile_order
               standard_rider 0)]"
    by simp
  obtain ds os rs where cd: "createAssignmentDecisions [(''fragile_order'', ''rider_1'')]
          [(''fragile_order'', fragile_order)] [(''rider_1'', standard_rider)] = (ds, os, rs)"
    by (cases "createAssignmentDecisions [(''fragile_order'', ''rider_1'')]
          [(''fragile_order'', fragile_order)] [(''rider_1'', standard_rider)]") auto
  with example_decisions have ds: "ds
     = [\<lparr>decOrderId = ''fragile_order'', decRiderId = ''rider_1'', decSequenceIndex = 0\<rparr>]"
    by simp
  show ?thesis
    unfolding executeCycle_def Let_def pend
    by (simp add: noon_env_def [THEN arg_cong, of dateNow] example_stage1)
       (simp add: s2 [unfolded noon_env_def [THEN arg_cong, of dateNow]] sc example_stage3
          one_order_engine_fields cd ds calculateAverageCost_def)
qed

text \<open>Only the exact solver can keep a cycle from returning.\<close>

lemma executeCycle_None_exact_solver:
  assumes "executeCycle env e = None"
  shows "\<exists>mx. hungarian_optimize mx = None"
  using assms
  by (auto simp: executeCycle_def stage3GlobalOptimization_def adaptive_optimize_def Let_def
      split: prod.splits if_splits option.splits)

text \<open>
  Claim C5 (\<open>avgCost\<close> is the arithmetic mean of the scorer costs of the chosen pairs).
  \<open>calculateAverageCost\<close> returns the constant 0.5 for every non-empty list of
  decisions: the example cycle emits the one decision for the one pair, reports
  \<open>avgCost\<close> 0.5, and the scorer cost of that pair is below 0.5.
\<close>

theorem C5_avgCost_is_constant:
  "map_option (\<lambda>(res, e'). (map decOrderId (decisions res), avgCost (metrics res)))
     (executeCycle noon_env one_order_engine) = Some ([''fragile_order''], 5 / 10)
   \<and> example_cost < 5 / 10"
proof -
  obtain res e' where r: "executeCycle noon_env one_order_engine = Some (res, e')"
    and d: "decisions res
       = [\<lparr>decOrderId = ''fragile_order'', decRiderId = ''rider_1'', decSequenceIndex = 0\<rparr>]"
    and a: "avgCost (metrics res) = 5 / 10"
    using example_cycle by (auto split: prod.splits)
  then show ?thesis using example_cost_below_half by simp
qed

text \<open>
  Claim C8: for every cycle that returns, \<open>successCount + failureCount\<close> is the number of
  orders with status \<open>pending_assignment\<close> at the start of the cycle, and
  \<open>successCount\<close> is the number of emitted decisions.
\<close>

theorem C8_counts_add_up:
  assumes "executeCycle env e = Some (res, e')"
  shows "successCount res + failureCount res
           = int (length (filter (\<lambda>x. status x = pending_assignment)
                            (map snd (engineOrders e))))
         \<and> successCount res = int (length (decisions res))"
proof (cases "filter (\<lambda>x. status x = pending_assignment) (map snd (engineOrders e)) = []")
  case True
  with assms show ?thesis
    by (auto simp: executeCycle_def Let_def simp del: filter_map)
next
  case False
  with assms show ?thesis
    by (auto simp: executeCycle_def Let_def simp del: filter_map
        split: option.splits prod.splits)
qed

text \<open>C8 on the example cycle, which returns: one pending order, one decision, no
  failure.\<close>

theorem C8_counts_add_up_witness:
  "\<exists>res e'. executeCycle noon_env one_order_engine = Some (res, e')
     \<and> successCount res + failureCount res = 1
     \<and> successCount res = 1
     \<and> length (decisions res) = 1
     \<and> length (filter (\<lambda>x. status x = pending_assignment)
                 (map snd (engineOrders one_order_engine))) = 1"
proof -
  obtain res e' where r: "executeCycle noon_env one_order_engine = Some (res, e')"
    using example_cycle by (auto split: prod.splits)
  have pend: "length (filter (\<lambda>x. status x = pending_assignment)
                 (map snd (engineOrders one_order_engine))) = 1"
    by (simp add: one_order_engine_fields fragile_order_fields)
  from r example_cycle have s: "successCount res = 1" by simp
  from C8_counts_add_up [OF r] pend s
  have "successCount res + failureCount res = 1 \<and> length (decisions res) = 1" by simp
  with r s pend show ?thesis by blast
qed

end
